theory Spec2Isabelle
  imports Main "HOL-Library.Multiset"
begin

section \<open>JSON values, responses and thrown errors\<close>

text \<open>
  The handlers answer with \<^verbatim>\<open>res.status(n).json(v)\<close>. A response is the status code and
  the JSON value. A timestamp (\<^verbatim>\<open>createdAt\<close>) is kept as the instant it denotes: \<open>JDate t\<close>
  stands for the ISO string that \<^verbatim>\<open>JSON.stringify\<close> prints for it.
\<close>

datatype json =
    JNull
  | JBool bool
  | JNum nat
  | JStr string
  | JDate nat
  | JArr "json list"
  | JObj "(string \<times> json) list"

record response =
  status :: nat
  body :: json

definition respond :: "nat \<Rightarrow> json \<Rightarrow> response" where
  "respond n v = \<lparr>status = n, body = v\<rparr>"

definition error_body :: "string \<Rightarrow> json" where
  "error_body msg = JObj [(''error'', JStr msg)]"

text \<open>
  An exception is the pair of properties the catch blocks read: \<^verbatim>\<open>error.name\<close> and
  \<^verbatim>\<open>error.code\<close> (\<open>None\<close> when the thrown object has no such property).
\<close>

datatype js_error = Thrown (err_name: string) (err_code: "string option")

section \<open>The users table\<close>

text \<open>
  \<^verbatim>\<open>sequelize.define('User', {username, email, password}, {timestamps: true})\<close>: a row has
  the auto-increment primary key, the three declared columns and the two timestamps.
\<close>

record user_row =
  row_id :: nat
  username :: string
  email :: string
  password :: string
  createdAt :: nat
  updatedAt :: nat

text \<open>The projection \<^verbatim>\<open>attributes: ['id', 'username', 'email', 'createdAt']\<close>.\<close>

record user_view =
  view_id :: nat
  view_username :: string
  view_email :: string
  view_createdAt :: nat

definition attributes :: "user_row \<Rightarrow> user_view" where
  "attributes u =
     \<lparr>view_id = row_id u, view_username = username u, view_email = email u,
      view_createdAt = createdAt u\<rparr>"

text \<open>
  The table is the list of its rows in insertion order, with the next value of the
  primary-key sequence. A failed insert leaves the record unchanged (gaps that the
  database may leave in the sequence are not tracked).
\<close>

record db =
  rows :: "user_row list"
  next_id :: nat

section \<open>The environment of one request\<close>

text \<open>
  The packages \<^verbatim>\<open>bcryptjs\<close>, \<^verbatim>\<open>jsonwebtoken\<close> and \<^verbatim>\<open>sequelize\<close> are dependencies; their
  code is not part of the repository. What the handlers call of them is a field of the
  environment, together with the clock (\<^verbatim>\<open>Date.now()\<close>, in milliseconds), the signing
  secret \<^verbatim>\<open>process.env.JWT_SECRET\<close> and, for every query, the exception (if any) that the
  database connection raises for it.

  \<^item> \<open>bcrypt_hash pw rounds\<close> is the digest of this call (the salt is drawn per call, so
    two requests may carry different functions); \<open>bcrypt_compare pw digest\<close> is the check.
  \<^item> \<open>jwt_sign payload secret expiresIn now\<close> and \<open>jwt_verify token secret now\<close> return
    the token or the decoded payload, or throw.
  \<^item> \<open>isEmail\<close> is the validator behind \<^verbatim>\<open>validate: {isEmail: ...}\<close>;
    \<open>validationError\<close>, \<open>dataError\<close> and \<open>uniqueConstraintError\<close> are the exceptions the
    ORM throws for a failed validation, a value too long for its column and a violated
    unique index. The ORM wraps the error of the database driver: the PostgreSQL code
    \<^verbatim>\<open>23505\<close> of a violated index is the property \<^verbatim>\<open>parent.code\<close> of the exception named
    \<^verbatim>\<open>SequelizeUniqueConstraintError\<close>, whose own \<^verbatim>\<open>code\<close> is not set. The concrete
    environment below has the exceptions in this form.
\<close>

record jwt_payload =
  userId :: nat
  claim_email :: string
  claim_username :: string

record env =
  clock :: nat
  JWT_SECRET :: "string option"
  bcrypt_hash :: "string \<Rightarrow> nat \<Rightarrow> string"
  bcrypt_compare :: "string \<Rightarrow> string \<Rightarrow> bool"
  jwt_sign :: "jwt_payload \<Rightarrow> string option \<Rightarrow> string \<Rightarrow> nat \<Rightarrow> js_error + string"
  jwt_verify :: "string \<Rightarrow> string option \<Rightarrow> nat \<Rightarrow> js_error + jwt_payload"
  isEmail :: "string \<Rightarrow> bool"
  validationError :: js_error
  dataError :: js_error
  uniqueConstraintError :: js_error
  fault_findUserByEmail :: "js_error option"
  fault_findUserByUsername :: "js_error option"
  fault_createUser :: "js_error option"
  fault_findUserById :: "js_error option"
  fault_getAllUsers :: "js_error option"

section \<open>UserModel: the query methods\<close>

text \<open>\<^verbatim>\<open>User.findOne({ where: { email } })\<close>: the first row whose column equals the argument.\<close>

definition findUserByEmail :: "env \<Rightarrow> db \<Rightarrow> string \<Rightarrow> js_error + user_row option" where
  "findUserByEmail e d em =
     (case fault_findUserByEmail e of
        Some err \<Rightarrow> Inl err
      | None \<Rightarrow> Inr (find (\<lambda>u. email u = em) (rows d)))"

definition findUserByUsername :: "env \<Rightarrow> db \<Rightarrow> string \<Rightarrow> js_error + user_row option" where
  "findUserByUsername e d un =
     (case fault_findUserByUsername e of
        Some err \<Rightarrow> Inl err
      | None \<Rightarrow> Inr (find (\<lambda>u. username u = un) (rows d)))"

definition findUserById :: "env \<Rightarrow> db \<Rightarrow> nat \<Rightarrow> js_error + user_view option" where
  "findUserById e d i =
     (case fault_findUserById e of
        Some err \<Rightarrow> Inl err
      | None \<Rightarrow> Inr (map_option attributes (find (\<lambda>u. row_id u = i) (rows d))))"

text \<open>
  \<^verbatim>\<open>User.findAll({ attributes: [...], order: [['createdAt', 'DESC']] })\<close>. The sort is by
  the negated timestamp; rows with equal timestamps keep their insertion order (SQL
  leaves their order open).
\<close>

definition order_createdAt_DESC :: "user_row list \<Rightarrow> user_row list" where
  "order_createdAt_DESC us = sort_key (\<lambda>u. - int (createdAt u)) us"

definition UserModel_getAllUsers :: "env \<Rightarrow> db \<Rightarrow> js_error + user_view list" where
  "UserModel_getAllUsers e d =
     (case fault_getAllUsers e of
        Some err \<Rightarrow> Inl err
      | None \<Rightarrow> Inr (map attributes (order_createdAt_DESC (rows d))))"

text \<open>
  \<^verbatim>\<open>User.create({ username, email, password })\<close>, then the projection that
  \<^verbatim>\<open>createUser\<close> returns. In order: the model's validators (\<^verbatim>\<open>len: [3, 100]\<close> on the
  username, \<^verbatim>\<open>isEmail\<close> on the email), which run before the statement is sent; a failure
  of the connection; the column widths \<^verbatim>\<open>STRING(150)\<close> and \<^verbatim>\<open>STRING(255)\<close>; the two
  \<^verbatim>\<open>unique: true\<close> indexes; and the insert, which stamps \<^verbatim>\<open>createdAt\<close> and
  \<^verbatim>\<open>updatedAt\<close> with the clock.
\<close>

definition new_row :: "env \<Rightarrow> db \<Rightarrow> string \<Rightarrow> string \<Rightarrow> string \<Rightarrow> user_row" where
  "new_row e d un em hp =
     \<lparr>row_id = next_id d, username = un, email = em, password = hp,
      createdAt = clock e, updatedAt = clock e\<rparr>"

definition violates_unique :: "db \<Rightarrow> string \<Rightarrow> string \<Rightarrow> bool" where
  "violates_unique d un em = list_ex (\<lambda>u. username u = un \<or> email u = em) (rows d)"

definition createUser ::
  "env \<Rightarrow> db \<Rightarrow> string \<Rightarrow> string \<Rightarrow> string \<Rightarrow> (js_error + user_view) \<times> db" where
  "createUser e d un em hp =
     (if length un < 3 \<or> 100 < length un \<or> \<not> isEmail e em then (Inl (validationError e), d)
      else (case fault_createUser e of
              Some err \<Rightarrow> (Inl err, d)
            | None \<Rightarrow>
                if 150 < length em \<or> 255 < length hp then (Inl (dataError e), d)
                else if violates_unique d un em then (Inl (uniqueConstraintError e), d)
                else (Inr (attributes (new_row e d un em hp)),
                      \<lparr>rows = rows d @ [new_row e d un em hp], next_id = Suc (next_id d)\<rparr>)))"

section \<open>The email pattern\<close>

text \<open>
  \<^verbatim>\<open>/^[^\s@]+@[^\s@]+\.[^\s@]+$/\<close>. A pattern is a sequence of items, each a literal
  character or one-or-more characters of a class; \<open>rx_match\<close> tries every way to split
  the string, which accepts exactly the strings the backtracking matcher accepts. The
  pattern is anchored at both ends, so \<^verbatim>\<open>test\<close> is a match of the whole string.
  Characters are the code units below 256; of these \<^verbatim>\<open>\s\<close> holds the six ASCII
  white-space characters and the no-break space.
\<close>

datatype rx_item = Lit char | Plus "char \<Rightarrow> bool"

fun rx_match :: "rx_item list \<Rightarrow> string \<Rightarrow> bool" where
  "rx_match [] s = (s = [])"
| "rx_match (Lit c # r) [] = False"
| "rx_match (Lit c # r) (x # xs) = (x = c \<and> rx_match r xs)"
| "rx_match (Plus P # r) [] = False"
| "rx_match (Plus P # r) (x # xs) = (P x \<and> (rx_match r xs \<or> rx_match (Plus P # r) xs))"

definition white_space :: "char list" where
  "white_space = [CHR 0x09, CHR 0x0A, CHR 0x0B, CHR 0x0C, CHR 0x0D, CHR 0x20, CHR 0xA0]"

definition not_space_at :: "char \<Rightarrow> bool" where
  "not_space_at c = (c \<notin> set white_space \<and> c \<noteq> CHR ''@'')"

definition emailRegex :: "rx_item list" where
  "emailRegex =
     [Plus not_space_at, Lit (CHR ''@''), Plus not_space_at, Lit (CHR ''.''), Plus not_space_at]"

definition emailRegex_test :: "string \<Rightarrow> bool" where
  "emailRegex_test s = rx_match emailRegex s"

section \<open>The controller: registerUser\<close>

text \<open>
  A field of \<^verbatim>\<open>req.body\<close> is absent (\<open>None\<close>) or a string; \<^verbatim>\<open>!v\<close> holds of an absent
  field and of the empty string. Other JSON values in these fields are outside the model.
\<close>

record register_body =
  reg_username :: "string option"
  reg_email :: "string option"
  reg_password :: "string option"

definition falsy :: "string option \<Rightarrow> bool" where
  "falsy v = (case v of None \<Rightarrow> True | Some s \<Rightarrow> s = [])"

definition str :: "string option \<Rightarrow> string" where
  "str v = (case v of None \<Rightarrow> [] | Some s \<Rightarrow> s)"

definition SALT_ROUNDS :: nat where
  "SALT_ROUNDS = 10"

definition registered_body :: "user_view \<Rightarrow> json" where
  "registered_body v =
     JObj [(''message'', JStr ''User registered successfully''),
           (''user'', JObj [(''id'', JNum (view_id v)),
                            (''username'', JStr (view_username v)),
                            (''email'', JStr (view_email v)),
                            (''createdAt'', JDate (view_createdAt v))])]"

text \<open>The body of the \<^verbatim>\<open>try\<close> block: a response, or the exception that leaves it.\<close>

definition register_try ::
  "env \<Rightarrow> db \<Rightarrow> string \<Rightarrow> string \<Rightarrow> string \<Rightarrow> (js_error + response) \<times> db" where
  "register_try e d un em pw =
     (case findUserByEmail e d em of
        Inl err \<Rightarrow> (Inl err, d)
      | Inr (Some existingEmail) \<Rightarrow>
          (Inr (respond 409 (error_body ''Email is already registered'')), d)
      | Inr None \<Rightarrow>
          (case findUserByUsername e d un of
             Inl err \<Rightarrow> (Inl err, d)
           | Inr (Some existingUsername) \<Rightarrow>
               (Inr (respond 409 (error_body ''Username is already taken'')), d)
           | Inr None \<Rightarrow>
               (case createUser e d un em (bcrypt_hash e pw SALT_ROUNDS) of
                  (Inl err, d') \<Rightarrow> (Inl err, d')
                | (Inr newUser, d') \<Rightarrow> (Inr (respond 201 (registered_body newUser)), d'))))"

text \<open>The \<^verbatim>\<open>catch\<close> block.\<close>

definition register_catch :: "js_error \<Rightarrow> response" where
  "register_catch err =
     (if err_code err = Some ''23505''
      then respond 409 (error_body ''User with this email or username already exists'')
      else respond 500 (error_body ''Server error during registration. Please try again.''))"

definition registerUser :: "env \<Rightarrow> db \<Rightarrow> register_body \<Rightarrow> response \<times> db" where
  "registerUser e d b =
     (if falsy (reg_username b) \<or> falsy (reg_email b) \<or> falsy (reg_password b)
      then (respond 400 (error_body ''All fields are required (username, email, password)''), d)
      else if \<not> emailRegex_test (str (reg_email b))
      then (respond 400 (error_body ''Please provide a valid email address''), d)
      else if length (str (reg_password b)) < 6
      then (respond 400 (error_body ''Password must be at least 6 characters long''), d)
      else (case register_try e d (str (reg_username b)) (str (reg_email b)) (str (reg_password b)) of
              (Inl err, d') \<Rightarrow> (register_catch err, d')
            | (Inr r, d') \<Rightarrow> (r, d')))"

text \<open>
  Every \<^verbatim>\<open>await\<close> of the \<^verbatim>\<open>try\<close> block lets other requests run, so the two lookups
  and the insert are not one atomic step. In \<open>register_try_racing\<close> the lookups read the
  table \<open>d\<close> and the insert meets the table \<open>d'\<close>, which holds what other requests have
  committed in between; with \<open>d' = d\<close> it is \<open>register_try\<close>.
\<close>

definition register_try_racing ::
  "env \<Rightarrow> db \<Rightarrow> db \<Rightarrow> string \<Rightarrow> string \<Rightarrow> string \<Rightarrow> (js_error + response) \<times> db" where
  "register_try_racing e d d' un em pw =
     (case findUserByEmail e d em of
        Inl err \<Rightarrow> (Inl err, d')
      | Inr (Some existingEmail) \<Rightarrow>
          (Inr (respond 409 (error_body ''Email is already registered'')), d')
      | Inr None \<Rightarrow>
          (case findUserByUsername e d un of
             Inl err \<Rightarrow> (Inl err, d')
           | Inr (Some existingUsername) \<Rightarrow>
               (Inr (respond 409 (error_body ''Username is already taken'')), d')
           | Inr None \<Rightarrow>
               (case createUser e d' un em (bcrypt_hash e pw SALT_ROUNDS) of
                  (Inl err, d'') \<Rightarrow> (Inl err, d'')
                | (Inr newUser, d'') \<Rightarrow> (Inr (respond 201 (registered_body newUser)), d''))))"

definition registerUser_racing :: "env \<Rightarrow> db \<Rightarrow> db \<Rightarrow> register_body \<Rightarrow> response \<times> db" where
  "registerUser_racing e d d' b =
     (if falsy (reg_username b) \<or> falsy (reg_email b) \<or> falsy (reg_password b)
      then (respond 400 (error_body ''All fields are required (username, email, password)''), d')
      else if \<not> emailRegex_test (str (reg_email b))
      then (respond 400 (error_body ''Please provide a valid email address''), d')
      else if length (str (reg_password b)) < 6
      then (respond 400 (error_body ''Password must be at least 6 characters long''), d')
      else (case register_try_racing e d d' (str (reg_username b)) (str (reg_email b))
                   (str (reg_password b)) of
              (Inl err, d'') \<Rightarrow> (register_catch err, d'')
            | (Inr r, d'') \<Rightarrow> (r, d'')))"

section \<open>The controller: loginUser\<close>

record login_body =
  login_email :: "string option"
  login_password :: "string option"

definition login_payload :: "user_row \<Rightarrow> jwt_payload" where
  "login_payload user =
     \<lparr>userId = row_id user, claim_email = email user, claim_username = username user\<rparr>"

definition logged_in_body :: "string \<Rightarrow> user_row \<Rightarrow> json" where
  "logged_in_body token user =
     JObj [(''message'', JStr ''Login successful''),
           (''token'', JStr token),
           (''user'', JObj [(''id'', JNum (row_id user)),
                            (''username'', JStr (username user)),
                            (''email'', JStr (email user))])]"

definition login_try :: "env \<Rightarrow> db \<Rightarrow> string \<Rightarrow> string \<Rightarrow> js_error + response" where
  "login_try e d em pw =
     (case findUserByEmail e d em of
        Inl err \<Rightarrow> Inl err
      | Inr None \<Rightarrow> Inr (respond 401 (error_body ''Invalid email or password''))
      | Inr (Some user) \<Rightarrow>
          if \<not> bcrypt_compare e pw (password user)
          then Inr (respond 401 (error_body ''Invalid email or password''))
          else (case jwt_sign e (login_payload user) (JWT_SECRET e) ''24h'' (clock e) of
                  Inl err \<Rightarrow> Inl err
                | Inr token \<Rightarrow> Inr (respond 200 (logged_in_body token user))))"

definition login_catch :: "js_error \<Rightarrow> response" where
  "login_catch err = respond 500 (error_body ''Server error during login. Please try again.'')"

definition loginUser :: "env \<Rightarrow> db \<Rightarrow> login_body \<Rightarrow> response" where
  "loginUser e d b =
     (if falsy (login_email b) \<or> falsy (login_password b)
      then respond 400 (error_body ''Email and password are required'')
      else (case login_try e d (str (login_email b)) (str (login_password b)) of
              Inl err \<Rightarrow> login_catch err
            | Inr r \<Rightarrow> r))"

section \<open>The controller: getAllUsers\<close>

definition view_json :: "user_view \<Rightarrow> json" where
  "view_json v =
     JObj [(''id'', JNum (view_id v)),
           (''username'', JStr (view_username v)),
           (''email'', JStr (view_email v)),
           (''createdAt'', JDate (view_createdAt v))]"

definition getAllUsers :: "env \<Rightarrow> db \<Rightarrow> response" where
  "getAllUsers e d =
     (case UserModel_getAllUsers e d of
        Inl err \<Rightarrow> respond 500 (error_body ''Error retrieving users. Please try again later.'')
      | Inr users \<Rightarrow> respond 200 (JArr (map view_json users)))"

text \<open>
  The older copy of the controller (the file whose first line names
  \<^verbatim>\<open>src/controllers/userController.js\<close> and which requires the model as \<^verbatim>\<open>User\<close>) wraps
  the list. Its model layer is the query of the former \<^verbatim>\<open>pg\<close> version; the rows it returns
  are the argument.
\<close>

definition getAllUsers_older :: "js_error + json list \<Rightarrow> response" where
  "getAllUsers_older fetched =
     (case fetched of
        Inl err \<Rightarrow> respond 500 (error_body ''Server error while fetching users'')
      | Inr users \<Rightarrow>
          respond 200 (JObj [(''message'', JStr ''Users retrieved successfully''),
                             (''count'', JNum (length users)),
                             (''users'', JArr users)]))"

section \<open>The middleware: authenticateToken\<close>

text \<open>
  \<^verbatim>\<open>String.prototype.split\<close> with a one-character separator: every occurrence of the
  separator ends a segment, so two separators in a row enclose an empty segment and the
  empty string splits into one empty segment.
\<close>

fun js_split :: "char \<Rightarrow> string \<Rightarrow> string list" where
  "js_split c [] = [[]]"
| "js_split c (x # xs) =
     (if x = c then [] # js_split c xs
      else (case js_split c xs of [] \<Rightarrow> [[x]] | w # ws \<Rightarrow> (x # w) # ws))"

text \<open>Reading an array at a position: past the end the value is \<^verbatim>\<open>undefined\<close>, here \<open>None\<close>.\<close>

definition at :: "'a list \<Rightarrow> nat \<Rightarrow> 'a option" where
  "at segments i = (if i < length segments then Some (segments ! i) else None)"

text \<open>
  \<^verbatim>\<open>authHeader && authHeader.split(' ')[1]\<close>: an absent header gives \<^verbatim>\<open>undefined\<close>, the
  empty header gives itself, any other header its second segment.
\<close>

definition header_token :: "string option \<Rightarrow> string option" where
  "header_token authHeader =
     (case authHeader of
        None \<Rightarrow> None
      | Some h \<Rightarrow> if h = [] then Some [] else at (js_split (CHR '' '') h) 1)"

record req_user =
  user_userId :: nat
  user_email :: string
  user_username :: string

text \<open>The middleware ends the request with a response or calls \<^verbatim>\<open>next()\<close> with \<^verbatim>\<open>req.user\<close> set.\<close>

datatype gate = Respond response | Next req_user

definition authenticate_try :: "env \<Rightarrow> db \<Rightarrow> string \<Rightarrow> js_error + gate" where
  "authenticate_try e d token =
     (case jwt_verify e token (JWT_SECRET e) (clock e) of
        Inl err \<Rightarrow> Inl err
      | Inr decoded \<Rightarrow>
          (case findUserById e d (userId decoded) of
             Inl err \<Rightarrow> Inl err
           | Inr None \<Rightarrow> Inr (Respond (respond 401 (error_body ''User not found. Token invalid.'')))
           | Inr (Some user) \<Rightarrow>
               Inr (Next \<lparr>user_userId = view_id user, user_email = view_email user,
                          user_username = view_username user\<rparr>)))"

definition authenticate_catch :: "js_error \<Rightarrow> gate" where
  "authenticate_catch err =
     (if err_name err = ''JsonWebTokenError''
      then Respond (respond 401 (error_body ''Invalid token''))
      else if err_name err = ''TokenExpiredError''
      then Respond (respond 401 (error_body ''Token has expired. Please login again.''))
      else Respond (respond 500 (error_body ''Server error during authentication'')))"

definition authenticateToken :: "env \<Rightarrow> db \<Rightarrow> string option \<Rightarrow> gate" where
  "authenticateToken e d authHeader =
     (if falsy (header_token authHeader)
      then Respond (respond 401 (error_body ''Access denied. No token provided.''))
      else (case authenticate_try e d (str (header_token authHeader)) of
              Inl err \<Rightarrow> authenticate_catch err
            | Inr g \<Rightarrow> g))"

section \<open>The Token Service\<close>

text \<open>The lifetime \<^verbatim>\<open>'24h'\<close> in the unit of the clock, milliseconds.\<close>

definition hours_24 :: nat where
  "hours_24 = 24 * 60 * 60 * 1000"

text \<open>
  Modelled from the spec: the code of \<^verbatim>\<open>jwt.sign\<close> and \<^verbatim>\<open>jwt.verify\<close> (package
  \<^verbatim>\<open>jsonwebtoken\<close>) is not in the repository. Section 4.2 gives the contract: a token
  issued at \<open>t\<close> carries \<open>expiresAt = t + 24h\<close>; \<open>verify\<close> fails with \<open>ExpiredToken\<close>
  when \<open>now > expiresAt\<close> and returns the claims otherwise. \<open>ExpiredToken\<close> is the
  exception named \<^verbatim>\<open>TokenExpiredError\<close> that the middleware tests for. A token is one
  non-empty word, as the header \<^verbatim>\<open>Authorization: Bearer <token>\<close> of section 6 requires.
\<close>

definition token_service :: "env \<Rightarrow> bool" where
  "token_service e =
     (\<forall>claims secret t token.
        jwt_sign e claims secret ''24h'' t = Inr token \<longrightarrow>
          token \<noteq> [] \<and> CHR '' '' \<notin> set token \<and>
          (\<forall>now.
             (now \<le> t + hours_24 \<longrightarrow> jwt_verify e token secret now = Inr claims) \<and>
             (t + hours_24 < now \<longrightarrow>
                (\<exists>err. jwt_verify e token secret now = Inl err \<and>
                       err_name err = ''TokenExpiredError''))))"

section \<open>Properties of response bodies\<close>

text \<open>Whether a key occurs in a JSON value, at any depth.\<close>

fun has_key :: "string \<Rightarrow> json \<Rightarrow> bool"
  and has_key_elems :: "string \<Rightarrow> json list \<Rightarrow> bool"
  and has_key_fields :: "string \<Rightarrow> (string \<times> json) list \<Rightarrow> bool" where
  "has_key k (JArr vs) = has_key_elems k vs"
| "has_key k (JObj kvs) = has_key_fields k kvs"
| "has_key k JNull = False"
| "has_key k (JBool b) = False"
| "has_key k (JNum n) = False"
| "has_key k (JStr s) = False"
| "has_key k (JDate t) = False"
| "has_key_elems k [] = False"
| "has_key_elems k (v # vs) = (has_key k v \<or> has_key_elems k vs)"
| "has_key_fields k [] = False"
| "has_key_fields k ((k', v) # kvs) = (k' = k \<or> has_key k v \<or> has_key_fields k kvs)"

text \<open>The table with every stored digest blanked.\<close>

definition redact :: "db \<Rightarrow> db" where
  "redact d = d\<lparr>rows := map (\<lambda>u. u\<lparr>password := []\<rparr>) (rows d)\<rparr>"

text \<open>
  The body \<^verbatim>\<open>{message, count, users: [...]}\<close> with \<open>count\<close> the number of elements of
  \<open>users\<close>.
\<close>

definition message_count_users :: "json \<Rightarrow> bool" where
  "message_count_users v =
     (case v of
        JObj kvs \<Rightarrow>
          (case (map_of kvs ''message'', map_of kvs ''count'', map_of kvs ''users'') of
             (Some m, Some (JNum c), Some (JArr us)) \<Rightarrow> c = length us
           | _ \<Rightarrow> False)
      | _ \<Rightarrow> False)"

text \<open>Two strings that differ at most in the case of their ASCII letters.\<close>

definition to_lower :: "char \<Rightarrow> char" where
  "to_lower c =
     (case map_of (zip ''ABCDEFGHIJKLMNOPQRSTUVWXYZ'' ''abcdefghijklmnopqrstuvwxyz'') c of
        Some l \<Rightarrow> l
      | None \<Rightarrow> c)"

definition same_up_to_case :: "string \<Rightarrow> string \<Rightarrow> bool" where
  "same_up_to_case a b = (map to_lower a = map to_lower b)"

section \<open>Requests that reach the insert\<close>

text \<open>
  A register request passes the three checks of the controller, the validators of the
  model and the widths of the columns; the database answers each of its three queries.
\<close>

definition passes_validation :: "env \<Rightarrow> string \<Rightarrow> string \<Rightarrow> string \<Rightarrow> bool" where
  "passes_validation e un em pw =
     (un \<noteq> [] \<and> emailRegex_test em \<and> 6 \<le> length pw \<and>
      3 \<le> length un \<and> length un \<le> 100 \<and> isEmail e em \<and> length em \<le> 150 \<and>
      length (bcrypt_hash e pw SALT_ROUNDS) \<le> 255)"

definition database_up :: "env \<Rightarrow> bool" where
  "database_up e =
     (fault_findUserByEmail e = None \<and> fault_findUserByUsername e = None \<and>
      fault_createUser e = None)"

section \<open>Concrete inputs\<close>

definition alice :: user_row where
  "alice =
     \<lparr>row_id = 1, username = ''alice'', email = ''alice@example.com'',
      password = ''$2a$10$wonderland'', createdAt = 500, updatedAt = 500\<rparr>"

definition demo_db :: db where
  "demo_db = \<lparr>rows = [alice], next_id = 2\<rparr>"

definition empty_db :: db where
  "empty_db = \<lparr>rows = [], next_id = 1\<rparr>"

text \<open>
  A token service that issues one token, to \<open>alice\<close> at instant 1000 under the secret
  \<^verbatim>\<open>secret\<close>, and a hasher that prefixes the password.
\<close>

definition demo_sign :: "jwt_payload \<Rightarrow> string option \<Rightarrow> string \<Rightarrow> nat \<Rightarrow> js_error + string" where
  "demo_sign claims secret expiresIn t =
     (if claims = login_payload alice \<and> secret = Some ''secret'' \<and> expiresIn = ''24h'' \<and> t = 1000
      then Inr ''header.payload.signature''
      else Inl (Thrown ''Error'' None))"

definition demo_verify :: "string \<Rightarrow> string option \<Rightarrow> nat \<Rightarrow> js_error + jwt_payload" where
  "demo_verify token secret now =
     (if token = ''header.payload.signature'' \<and> secret = Some ''secret''
      then (if 1000 + hours_24 < now then Inl (Thrown ''TokenExpiredError'' None)
            else Inr (login_payload alice))
      else Inl (Thrown ''JsonWebTokenError'' None))"

definition demo_env :: env where
  "demo_env =
     \<lparr>clock = 1000, JWT_SECRET = Some ''secret'',
      bcrypt_hash = (\<lambda>pw rounds. ''$2a$10$'' @ pw),
      bcrypt_compare = (\<lambda>pw digest. digest = ''$2a$10$'' @ pw),
      jwt_sign = demo_sign,
      jwt_verify = demo_verify,
      isEmail = emailRegex_test,
      validationError = Thrown ''SequelizeValidationError'' None,
      dataError = Thrown ''SequelizeDatabaseError'' None,
      uniqueConstraintError = Thrown ''SequelizeUniqueConstraintError'' None,
      fault_findUserByEmail = None, fault_findUserByUsername = None,
      fault_createUser = None, fault_findUserById = None, fault_getAllUsers = None\<rparr>"

definition register_request :: "string \<Rightarrow> string \<Rightarrow> string \<Rightarrow> register_body" where
  "register_request un em pw =
     \<lparr>reg_username = Some un, reg_email = Some em, reg_password = Some pw\<rparr>"

definition login_request :: "string \<Rightarrow> string \<Rightarrow> login_body" where
  "login_request em pw = \<lparr>login_email = Some em, login_password = Some pw\<rparr>"

text \<open>Three registrations in a row, at the instants 1000, 2000 and 3000.\<close>

definition ann_request :: register_body where
  "ann_request = register_request ''ann'' ''ann@example.com'' ''secret-a''"

definition ben_request :: register_body where
  "ben_request = register_request ''ben'' ''ben@example.com'' ''secret-b''"

definition cat_request :: register_body where
  "cat_request = register_request ''cat'' ''cat@example.com'' ''secret-c''"

definition after_ann :: db where
  "after_ann = snd (registerUser (demo_env\<lparr>clock := 1000\<rparr>) empty_db ann_request)"

definition after_ben :: db where
  "after_ben = snd (registerUser (demo_env\<lparr>clock := 2000\<rparr>) after_ann ben_request)"

definition after_cat :: db where
  "after_cat = snd (registerUser (demo_env\<lparr>clock := 3000\<rparr>) after_ben cat_request)"

section \<open>Auxiliary facts\<close>

lemma find_absent: "\<forall>u \<in> set xs. \<not> P u \<Longrightarrow> find P xs = None"
  by (simp add: find_None_iff)

lemma js_split_not_Nil: "js_split c s \<noteq> []"
  by (induction s) (auto split: list.splits)

lemma js_split_no_sep: "c \<notin> set s \<Longrightarrow> js_split c s = [s]"
  by (induction s) auto

lemma js_split_first: "c \<notin> set a \<Longrightarrow> js_split c (a @ c # r) = a # js_split c r"
  by (induction a) auto

lemma header_token_scheme:
  assumes "CHR '' '' \<notin> set scheme" and "CHR '' '' \<notin> set tok"
  shows "header_token (Some (scheme @ '' '' @ tok)) = Some tok"
  using assms by (simp add: header_token_def at_def js_split_first js_split_no_sep)

lemma header_token_bare:
  assumes "h \<noteq> []" and "CHR '' '' \<notin> set h"
  shows "header_token (Some h) = None"
  using assms by (simp add: header_token_def at_def js_split_no_sep)

lemma registerUser_validated:
  assumes "un \<noteq> []" and "emailRegex_test em" and "6 \<le> length pw"
  shows "registerUser e d (register_request un em pw) =
           (case register_try e d un em pw of
              (Inl err, d') \<Rightarrow> (register_catch err, d')
            | (Inr r, d') \<Rightarrow> (r, d'))"
proof -
  from assms(2) have "em \<noteq> []"
    by (auto simp: emailRegex_test_def emailRegex_def)
  moreover from assms(3) have "pw \<noteq> []" by auto
  ultimately show ?thesis
    using assms by (simp add: registerUser_def register_request_def falsy_def str_def)
qed

lemma register_try_success:
  assumes "fault_findUserByEmail e = None" and "fault_findUserByUsername e = None"
    and "fault_createUser e = None"
    and "\<forall>u \<in> set (rows d). username u \<noteq> un \<and> email u \<noteq> em"
    and "3 \<le> length un" and "length un \<le> 100" and "isEmail e em" and "length em \<le> 150"
    and "length (bcrypt_hash e pw SALT_ROUNDS) \<le> 255"
  shows "register_try e d un em pw =
           (Inr (respond 201 (registered_body
                    (attributes (new_row e d un em (bcrypt_hash e pw SALT_ROUNDS))))),
            \<lparr>rows = rows d @ [new_row e d un em (bcrypt_hash e pw SALT_ROUNDS)],
             next_id = Suc (next_id d)\<rparr>)"
proof -
  from assms(4) have a: "find (\<lambda>u. email u = em) (rows d) = None"
    by (intro find_absent) simp
  from assms(4) have b: "find (\<lambda>u. username u = un) (rows d) = None"
    by (intro find_absent) simp
  from assms(4) have c: "\<not> violates_unique d un em"
    by (auto simp: violates_unique_def list_ex_iff)
  show ?thesis
    using assms a b c
    by (simp add: register_try_def findUserByEmail_def findUserByUsername_def createUser_def)
qed

lemma emailRegex_test_bob: "emailRegex_test ''bob@example.com''"
  by (simp add: emailRegex_test_def emailRegex_def not_space_at_def white_space_def)

lemma registerUser_accepts:
  assumes "passes_validation e un em pw" and "database_up e"
    and "\<forall>u \<in> set (rows d). username u \<noteq> un \<and> email u \<noteq> em"
  shows "registerUser e d (register_request un em pw) =
           (respond 201 (registered_body
               (attributes (new_row e d un em (bcrypt_hash e pw SALT_ROUNDS)))),
            \<lparr>rows = rows d @ [new_row e d un em (bcrypt_hash e pw SALT_ROUNDS)],
             next_id = Suc (next_id d)\<rparr>)"
  using assms
  by (simp add: passes_validation_def database_up_def registerUser_validated
      register_try_success)

lemma findUserByEmail_exact:
  assumes "findUserByEmail e d em = Inr (Some u)"
  shows "u \<in> set (rows d) \<and> email u = em"
  using assms
  by (auto simp: findUserByEmail_def find_Some_iff split: option.splits)

lemma findUserByUsername_exact:
  assumes "findUserByUsername e d un = Inr (Some u)"
  shows "u \<in> set (rows d) \<and> username u = un"
  using assms
  by (auto simp: findUserByUsername_def find_Some_iff split: option.splits)

lemma login_issues_token:
  assumes "loginUser e d b = respond 200 (logged_in_body token user)"
  shows "jwt_sign e (login_payload user) (JWT_SECRET e) ''24h'' (clock e) = Inr token"
  using assms
  by (auto simp: loginUser_def login_try_def login_catch_def respond_def error_body_def
      logged_in_body_def login_payload_def
      split: if_splits sum.splits option.splits)

lemma token_service_demo: "token_service demo_env"
  by (auto simp: token_service_def demo_env_def demo_sign_def demo_verify_def split: if_splits)

lemma order_descending:
  "sorted_wrt (\<lambda>a b. createdAt b \<le> createdAt a) (order_createdAt_DESC us)"
proof -
  have "sorted (map (\<lambda>u. - int (createdAt u)) (order_createdAt_DESC us))"
    unfolding order_createdAt_DESC_def by (rule sorted_sort_key)
  then show ?thesis
    by (simp add: sorted_wrt_map)
qed

lemma order_newest_last:
  assumes "\<forall>u \<in> set us. createdAt u < createdAt a"
  shows "order_createdAt_DESC (us @ [a]) = a # order_createdAt_DESC us"
  using assms unfolding order_createdAt_DESC_def
  by (induction us) auto

lemma registerUser_created:
  assumes "registerUser e d (register_request un em pw) = (r, d')" and "status r = 201"
  shows "d' = \<lparr>rows = rows d @ [new_row e d un em (bcrypt_hash e pw SALT_ROUNDS)],
               next_id = Suc (next_id d)\<rparr>"
  using assms
  by (auto simp: registerUser_def register_request_def register_try_def register_catch_def
      createUser_def respond_def str_def
      split: if_splits sum.splits option.splits prod.splits)

lemma find_map_rows: "find P (map f xs) = map_option f (find (\<lambda>x. P (f x)) xs)"
  by (induction xs) auto

lemma insort_key_map_rows:
  "insort_key k (f x) (map f ys) = map f (insort_key (\<lambda>y. k (f y)) x ys)"
  by (induction ys) auto

lemma sort_key_map_rows: "sort_key k (map f xs) = map f (sort_key (\<lambda>y. k (f y)) xs)"
  by (induction xs) (auto simp: insort_key_map_rows)

lemma has_key_view_json: "\<not> has_key_elems ''password'' (map view_json vs)"
  by (induction vs) (auto simp: view_json_def)

lemma register_body_no_password: "\<not> has_key ''password'' (body (fst (registerUser e d b)))"
  by (auto simp: registerUser_def register_try_def register_catch_def createUser_def
      respond_def error_body_def registered_body_def
      split: sum.splits option.splits prod.splits if_splits)

lemma login_body_no_password: "\<not> has_key ''password'' (body (loginUser e d b))"
  by (auto simp: loginUser_def login_try_def login_catch_def
      respond_def error_body_def logged_in_body_def
      split: sum.splits option.splits if_splits)

lemma listing_body_no_password: "\<not> has_key ''password'' (body (getAllUsers e d))"
  by (auto simp: getAllUsers_def respond_def error_body_def has_key_view_json
      split: sum.splits)

lemma gate_body_no_password:
  "authenticateToken e d h = Respond r \<Longrightarrow> \<not> has_key ''password'' (body r)"
  by (auto simp: authenticateToken_def authenticate_try_def authenticate_catch_def
      respond_def error_body_def
      split: sum.splits option.splits if_splits)

lemma rows_redact: "rows (redact d) = map (\<lambda>u. u\<lparr>password := []\<rparr>) (rows d)"
  and next_id_redact: "next_id (redact d) = next_id d"
  by (simp_all add: redact_def)

lemma findUserByEmail_redact:
  "findUserByEmail e (redact d) em =
     map_sum id (map_option (\<lambda>u. u\<lparr>password := []\<rparr>)) (findUserByEmail e d em)"
  by (simp add: findUserByEmail_def rows_redact find_map_rows split: option.splits)

lemma findUserByUsername_redact:
  "findUserByUsername e (redact d) un =
     map_sum id (map_option (\<lambda>u. u\<lparr>password := []\<rparr>)) (findUserByUsername e d un)"
  by (simp add: findUserByUsername_def rows_redact find_map_rows split: option.splits)

lemma createUser_redact:
  "fst (createUser e (redact d) un em hp) = fst (createUser e d un em hp)"
proof -
  have "violates_unique (redact d) un em = violates_unique d un em"
    by (auto simp: violates_unique_def rows_redact list_ex_iff)
  then show ?thesis
    by (simp add: createUser_def next_id_redact new_row_def attributes_def split: option.splits)
qed

lemma registerUser_response:
  "fst (registerUser e d b) =
     (if falsy (reg_username b) \<or> falsy (reg_email b) \<or> falsy (reg_password b)
      then respond 400 (error_body ''All fields are required (username, email, password)'')
      else if \<not> emailRegex_test (str (reg_email b))
      then respond 400 (error_body ''Please provide a valid email address'')
      else if length (str (reg_password b)) < 6
      then respond 400 (error_body ''Password must be at least 6 characters long'')
      else (case fst (register_try e d (str (reg_username b)) (str (reg_email b))
                        (str (reg_password b))) of
              Inl err \<Rightarrow> register_catch err
            | Inr r \<Rightarrow> r))"
  by (simp add: registerUser_def split: prod.splits sum.splits)

lemma register_try_response:
  "fst (register_try e d un em pw) =
     (case findUserByEmail e d em of
        Inl err \<Rightarrow> Inl err
      | Inr (Some existingEmail) \<Rightarrow> Inr (respond 409 (error_body ''Email is already registered''))
      | Inr None \<Rightarrow>
          (case findUserByUsername e d un of
             Inl err \<Rightarrow> Inl err
           | Inr (Some existingUsername) \<Rightarrow>
               Inr (respond 409 (error_body ''Username is already taken''))
           | Inr None \<Rightarrow>
               (case fst (createUser e d un em (bcrypt_hash e pw SALT_ROUNDS)) of
                  Inl err \<Rightarrow> Inl err
                | Inr newUser \<Rightarrow> Inr (respond 201 (registered_body newUser)))))"
  by (cases "createUser e d un em (bcrypt_hash e pw SALT_ROUNDS)")
     (auto simp: register_try_def split: sum.splits option.splits)

lemma register_redact: "fst (registerUser e (redact d) b) = fst (registerUser e d b)"
proof -
  have "fst (register_try e (redact d) un em pw) = fst (register_try e d un em pw)" for un em pw
    by (cases "findUserByEmail e d em"; cases "findUserByUsername e d un")
       (auto simp: register_try_response findUserByEmail_redact findUserByUsername_redact
        createUser_redact split: option.splits sum.splits)
  then show ?thesis
    by (simp add: registerUser_response)
qed

lemma register_digest:
  assumes "255 < length (bcrypt_hash e1 (str (reg_password b)) SALT_ROUNDS) \<longleftrightarrow>
           255 < length (bcrypt_hash e2 (str (reg_password b)) SALT_ROUNDS)"
    and "e2 = e1\<lparr>bcrypt_hash := h\<rparr>"
  shows "fst (registerUser e2 d b) = fst (registerUser e1 d b)"
proof -
  have "fst (createUser e2 d un em (bcrypt_hash e2 (str (reg_password b)) SALT_ROUNDS)) =
        fst (createUser e1 d un em (bcrypt_hash e1 (str (reg_password b)) SALT_ROUNDS))" for un em
    using assms
    by (simp add: createUser_def new_row_def attributes_def split: option.splits)
  then show ?thesis
    using assms(2)
    by (simp add: registerUser_response register_try_response findUserByEmail_def
        findUserByUsername_def split: option.splits)
qed

lemma attributes_blank: "attributes (u\<lparr>password := []\<rparr>) = attributes u"
  by (simp add: attributes_def)

lemma order_redact:
  "map attributes (order_createdAt_DESC (rows (redact d))) =
   map attributes (order_createdAt_DESC (rows d))"
proof -
  have "order_createdAt_DESC (map (\<lambda>u. u\<lparr>password := []\<rparr>) us) =
        map (\<lambda>u. u\<lparr>password := []\<rparr>) (order_createdAt_DESC us)" for us
    unfolding order_createdAt_DESC_def by (simp add: sort_key_map_rows)
  then show ?thesis
    by (simp add: rows_redact attributes_blank comp_def)
qed

lemma listing_redact: "getAllUsers e (redact d) = getAllUsers e d"
  by (simp add: getAllUsers_def UserModel_getAllUsers_def order_redact split: option.splits)

lemma gate_redact: "authenticateToken e (redact d) h = authenticateToken e d h"
proof -
  have "map_option attributes (find (\<lambda>u. row_id u = i) (rows (redact d))) =
        map_option attributes (find (\<lambda>u. row_id u = i) (rows d))" for i
    by (simp add: rows_redact find_map_rows option.map_comp comp_def attributes_blank)
  then have "findUserById e (redact d) i = findUserById e d i" for i
    by (simp add: findUserById_def split: option.splits)
  then show ?thesis
    by (simp add: authenticateToken_def authenticate_try_def cong: sum.case_cong)
qed

lemma find_email_related:
  assumes "list_all2 (\<lambda>u u'. email u = email u' \<and> Q u u') xs ys"
  shows "rel_option (\<lambda>u u'. email u = email u' \<and> Q u u')
           (find (\<lambda>u. email u = em) xs) (find (\<lambda>u. email u = em) ys)"
  using assms by (induction rule: list_all2_induct) simp_all

lemma login_same_outcome:
  assumes "list_all2 (\<lambda>u u'. attributes u = attributes u' \<and>
             bcrypt_compare e (str (login_password b)) (password u) =
             bcrypt_compare e (str (login_password b)) (password u'))
           (rows d) (rows d')"
  shows "loginUser e d' b = loginUser e d b"
proof -
  let ?pw = "str (login_password b)"
  let ?R = "\<lambda>u u'. attributes u = attributes u' \<and>
             bcrypt_compare e ?pw (password u) = bcrypt_compare e ?pw (password u')"
  have pub: "row_id x = row_id y \<and> username x = username y \<and> email x = email y"
    if "attributes x = attributes y" for x y
    using that by (simp add: attributes_def)
  have same: "login_try e d' em ?pw = login_try e d em ?pw" for em
  proof -
    have "list_all2 (\<lambda>u u'. email u = email u' \<and> ?R u u') (rows d) (rows d')"
      using assms by (rule list_all2_mono) (use pub in blast)
    then have rel: "rel_option (\<lambda>u u'. email u = email u' \<and> ?R u u')
                 (find (\<lambda>u. email u = em) (rows d)) (find (\<lambda>u. email u = em) (rows d'))"
      by (rule find_email_related)
    show ?thesis
    proof (cases "find (\<lambda>u. email u = em) (rows d)")
      case None
      with rel have "find (\<lambda>u. email u = em) (rows d') = None"
        by (cases "find (\<lambda>u. email u = em) (rows d')") simp_all
      with None show ?thesis
        by (simp add: login_try_def findUserByEmail_def split: option.splits)
    next
      case (Some u)
      with rel obtain u' where f: "find (\<lambda>u. email u = em) (rows d') = Some u'" and r: "?R u u'"
        by (cases "find (\<lambda>u. email u = em) (rows d')") simp_all
      from r have p: "login_payload u' = login_payload u"
        and l: "logged_in_body t u' = logged_in_body t u" for t
        using pub [of u u'] by (simp_all add: login_payload_def logged_in_body_def)
      from r have c: "bcrypt_compare e ?pw (password u') = bcrypt_compare e ?pw (password u)"
        by simp
      show ?thesis
        unfolding login_try_def findUserByEmail_def Some f
        by (simp add: p l c split: option.splits sum.splits)
    qed
  qed
  show ?thesis
    unfolding loginUser_def same ..
qed

lemma getAllUsers_older_shape:
  "status (getAllUsers_older (Inr users)) = 200 \<and>
   message_count_users (body (getAllUsers_older (Inr users)))"
  by (simp add: getAllUsers_older_def respond_def message_count_users_def)

text \<open>What the catch block of register answers, whichever persistence call threw.\<close>

lemma register_thrown_error_response:
  assumes "un \<noteq> []" and "emailRegex_test em" and "6 \<le> length pw"
    and "findUserByEmail e d em = Inl err \<or>
         (findUserByEmail e d em = Inr None \<and> findUserByUsername e d un = Inl err) \<or>
         (findUserByEmail e d em = Inr None \<and> findUserByUsername e d un = Inr None \<and>
          fst (createUser e d un em (bcrypt_hash e pw SALT_ROUNDS)) = Inl err)"
  shows "fst (registerUser e d (register_request un em pw)) =
           (if err_code err = Some ''23505''
            then respond 409 (error_body ''User with this email or username already exists'')
            else respond 500 (error_body ''Server error during registration. Please try again.''))"
proof -
  obtain x d' where c: "createUser e d un em (bcrypt_hash e pw SALT_ROUNDS) = (x, d')"
    by (cases "createUser e d un em (bcrypt_hash e pw SALT_ROUNDS)")
  from assms(4) c have "fst (register_try e d un em pw) = Inl err"
    by (auto simp: register_try_def)
  then obtain d'' where "register_try e d un em pw = (Inl err, d'')"
    by (cases "register_try e d un em pw") auto
  then show ?thesis
    using assms(1-3) by (simp add: registerUser_validated register_catch_def)
qed

lemma registerUser_racing_same: "registerUser_racing e d d b = registerUser e d b"
  by (simp add: registerUser_racing_def registerUser_def register_try_racing_def register_try_def)

lemma registerUser_racing_validated:
  assumes "un \<noteq> []" and "emailRegex_test em" and "6 \<le> length pw"
  shows "registerUser_racing e d d' (register_request un em pw) =
           (case register_try_racing e d d' un em pw of
              (Inl err, d'') \<Rightarrow> (register_catch err, d'')
            | (Inr r, d'') \<Rightarrow> (r, d''))"
proof -
  from assms(2) have "em \<noteq> []"
    by (auto simp: emailRegex_test_def emailRegex_def)
  moreover from assms(3) have "pw \<noteq> []" by auto
  ultimately show ?thesis
    using assms by (simp add: registerUser_racing_def register_request_def falsy_def str_def)
qed

subsection \<open>The concrete inputs evaluated\<close>

lemma same_up_to_case_demo: "same_up_to_case ''Alice@Example.com'' ''alice@example.com''"
  by (simp add: same_up_to_case_def to_lower_def)

lemma passes_validation_demo:
  "passes_validation demo_env ''Alice'' ''Alice@Example.com'' ''wonderland''"
  "passes_validation demo_env ''alice2'' ''alice@example.com'' ''wonderland''"
  by (simp_all add: passes_validation_def demo_env_def emailRegex_test_def emailRegex_def
      not_space_at_def white_space_def SALT_ROUNDS_def)

lemma database_up_demo: "database_up demo_env"
  by (simp add: database_up_def demo_env_def)

lemmas register_eval =
  registerUser_def register_request_def falsy_def str_def emailRegex_test_def emailRegex_def
  not_space_at_def white_space_def register_try_def findUserByEmail_def findUserByUsername_def
  createUser_def violates_unique_def new_row_def attributes_def SALT_ROUNDS_def
  demo_env_def empty_db_def

lemma after_ann_rows:
  "registerUser (demo_env\<lparr>clock := 1000\<rparr>) empty_db ann_request =
     (respond 201 (registered_body \<lparr>view_id = 1, view_username = ''ann'',
         view_email = ''ann@example.com'', view_createdAt = 1000\<rparr>),
      \<lparr>rows = [\<lparr>row_id = 1, username = ''ann'', email = ''ann@example.com'',
                password = ''$2a$10$secret-a'', createdAt = 1000, updatedAt = 1000\<rparr>],
       next_id = 2\<rparr>)"
  by (simp add: register_eval ann_request_def)

lemma after_ann_eq:
  "after_ann = \<lparr>rows = [\<lparr>row_id = 1, username = ''ann'', email = ''ann@example.com'',
                password = ''$2a$10$secret-a'', createdAt = 1000, updatedAt = 1000\<rparr>],
       next_id = 2\<rparr>"
  by (simp add: after_ann_def after_ann_rows)

lemma after_ben_rows:
  "registerUser (demo_env\<lparr>clock := 2000\<rparr>) after_ann ben_request =
     (respond 201 (registered_body \<lparr>view_id = 2, view_username = ''ben'',
         view_email = ''ben@example.com'', view_createdAt = 2000\<rparr>),
      \<lparr>rows = [\<lparr>row_id = 1, username = ''ann'', email = ''ann@example.com'',
                password = ''$2a$10$secret-a'', createdAt = 1000, updatedAt = 1000\<rparr>,
               \<lparr>row_id = 2, username = ''ben'', email = ''ben@example.com'',
                password = ''$2a$10$secret-b'', createdAt = 2000, updatedAt = 2000\<rparr>],
       next_id = 3\<rparr>)"
  by (simp add: register_eval ben_request_def after_ann_eq)

lemma after_ben_eq:
  "after_ben = \<lparr>rows = [\<lparr>row_id = 1, username = ''ann'', email = ''ann@example.com'',
                password = ''$2a$10$secret-a'', createdAt = 1000, updatedAt = 1000\<rparr>,
               \<lparr>row_id = 2, username = ''ben'', email = ''ben@example.com'',
                password = ''$2a$10$secret-b'', createdAt = 2000, updatedAt = 2000\<rparr>],
       next_id = 3\<rparr>"
  by (simp add: after_ben_def after_ben_rows)

lemma after_cat_status:
  "status (fst (registerUser (demo_env\<lparr>clock := 3000\<rparr>) after_ben cat_request)) = 201"
  by (simp add: register_eval cat_request_def after_ben_eq respond_def)

lemma after_ann_violates: "violates_unique after_ann ''anna'' ''ann@example.com''"
  by (simp add: after_ann_eq violates_unique_def)

lemma passes_validation_anna:
  "passes_validation demo_env ''anna'' ''ann@example.com'' ''secret-z''"
  by (simp add: passes_validation_def demo_env_def emailRegex_test_def emailRegex_def
      not_space_at_def white_space_def SALT_ROUNDS_def)

section \<open>The Auth Gate\<close>

text \<open>
  C1 as stated does not hold of the middleware. The request below carries a token, the
  token verifies, and its \<open>userId\<close> is the key of a row of the table; the query for that
  row fails, and the middleware answers 500 without calling \<^verbatim>\<open>next()\<close>. None of the four
  listed conditions holds, and the handler is not invoked.
\<close>

theorem authenticateToken_otherwise_counterexample:
  "header_token (Some ''Bearer header.payload.signature'') = Some ''header.payload.signature'' \<and>
   jwt_verify demo_env ''header.payload.signature'' (JWT_SECRET demo_env) (clock demo_env) =
     Inr (login_payload alice) \<and>
   find (\<lambda>u. row_id u = userId (login_payload alice)) (rows demo_db) = Some alice \<and>
   authenticateToken
       (demo_env\<lparr>fault_findUserById := Some (Thrown ''SequelizeConnectionError'' None)\<rparr>)
       demo_db (Some ''Bearer header.payload.signature'') =
     Respond (respond 500 (error_body ''Server error during authentication''))"
  by (simp add: header_token_def at_def authenticateToken_def authenticate_try_def
      authenticate_catch_def findUserById_def falsy_def str_def demo_env_def demo_verify_def
      demo_db_def alice_def login_payload_def hours_24_def)

text \<open>
  C1, as the middleware has it. A request whose authorization header carries no token,
  whose token fails verification with \<^verbatim>\<open>JsonWebTokenError\<close>, whose token is expired
  (\<^verbatim>\<open>TokenExpiredError\<close>), or whose verified \<open>userId\<close> is the key of no row of the table,
  is answered with status 401 and \<^verbatim>\<open>next()\<close> is not called. When verification or the query
  for the row throws any other exception, the answer is status 500 and \<^verbatim>\<open>next()\<close> is not
  called (a failure of the query that carries one of the two token error names is
  answered 401). In the one remaining case, the token verifies and the row is found,
  \<^verbatim>\<open>next()\<close> is called with \<^verbatim>\<open>req.user\<close> holding the id, email and username of the row just
  fetched; \<^verbatim>\<open>next()\<close> is called in no other case.
\<close>

theorem authenticateToken_outcomes:
  "(falsy (header_token h) \<longrightarrow>
      authenticateToken e d h =
        Respond (respond 401 (error_body ''Access denied. No token provided.''))) \<and>
   (header_token h = Some tok \<and> tok \<noteq> [] \<and>
    jwt_verify e tok (JWT_SECRET e) (clock e) = Inl err \<and> err_name err = ''JsonWebTokenError'' \<longrightarrow>
      authenticateToken e d h = Respond (respond 401 (error_body ''Invalid token''))) \<and>
   (header_token h = Some tok \<and> tok \<noteq> [] \<and>
    jwt_verify e tok (JWT_SECRET e) (clock e) = Inl err \<and> err_name err = ''TokenExpiredError'' \<longrightarrow>
      authenticateToken e d h =
        Respond (respond 401 (error_body ''Token has expired. Please login again.''))) \<and>
   (header_token h = Some tok \<and> tok \<noteq> [] \<and>
    jwt_verify e tok (JWT_SECRET e) (clock e) = Inr decoded \<and> fault_findUserById e = None \<and>
    (\<forall>u \<in> set (rows d). row_id u \<noteq> userId decoded) \<longrightarrow>
      authenticateToken e d h =
        Respond (respond 401 (error_body ''User not found. Token invalid.''))) \<and>
   (header_token h = Some tok \<and> tok \<noteq> [] \<and>
    jwt_verify e tok (JWT_SECRET e) (clock e) = Inr decoded \<and> fault_findUserById e = None \<and>
    find (\<lambda>u. row_id u = userId decoded) (rows d) = Some user \<longrightarrow>
      authenticateToken e d h =
        Next \<lparr>user_userId = row_id user, user_email = email user,
              user_username = username user\<rparr>) \<and>
   (header_token h = Some tok \<and> tok \<noteq> [] \<and>
    (jwt_verify e tok (JWT_SECRET e) (clock e) = Inl err \<or>
     (jwt_verify e tok (JWT_SECRET e) (clock e) = Inr decoded \<and>
      fault_findUserById e = Some err)) \<and>
    err_name err \<noteq> ''JsonWebTokenError'' \<and> err_name err \<noteq> ''TokenExpiredError'' \<longrightarrow>
      authenticateToken e d h =
        Respond (respond 500 (error_body ''Server error during authentication''))) \<and>
   (header_token h = Some tok \<and> tok \<noteq> [] \<and>
    jwt_verify e tok (JWT_SECRET e) (clock e) = Inr decoded \<and>
    fault_findUserById e = Some err \<and>
    (err_name err = ''JsonWebTokenError'' \<or> err_name err = ''TokenExpiredError'') \<longrightarrow>
      (\<exists>r. authenticateToken e d h = Respond r \<and> status r = 401)) \<and>
   ((\<exists>u. authenticateToken e d h = Next u) \<longleftrightarrow>
    (\<exists>t c row. header_token h = Some t \<and> t \<noteq> [] \<and>
       jwt_verify e t (JWT_SECRET e) (clock e) = Inr c \<and> fault_findUserById e = None \<and>
       find (\<lambda>u. row_id u = userId c) (rows d) = Some row))"
proof -
  have absent: "find (\<lambda>u. row_id u = i) (rows d) = None"
    if "\<forall>u \<in> set (rows d). row_id u \<noteq> i" for i
    using that by (simp add: find_None_iff)
  have only: "(\<exists>u. authenticateToken e d h = Next u) \<longleftrightarrow>
    (\<exists>t c row. header_token h = Some t \<and> t \<noteq> [] \<and>
       jwt_verify e t (JWT_SECRET e) (clock e) = Inr c \<and> fault_findUserById e = None \<and>
       find (\<lambda>u. row_id u = userId c) (rows d) = Some row)"
    by (auto simp: authenticateToken_def authenticate_try_def authenticate_catch_def
        findUserById_def falsy_def str_def
        split: option.splits sum.splits if_splits)
  show ?thesis
    by (intro conjI only)
       (auto simp: authenticateToken_def authenticate_try_def authenticate_catch_def
        findUserById_def falsy_def str_def attributes_def absent respond_def)
qed

theorem authenticateToken_outcomes_witness:
  "authenticateToken demo_env demo_db None =
     Respond (respond 401 (error_body ''Access denied. No token provided.'')) \<and>
   authenticateToken demo_env demo_db (Some ''Bearer forged'') =
     Respond (respond 401 (error_body ''Invalid token'')) \<and>
   authenticateToken (demo_env\<lparr>clock := 86401001\<rparr>) demo_db
       (Some ''Bearer header.payload.signature'') =
     Respond (respond 401 (error_body ''Token has expired. Please login again.'')) \<and>
   authenticateToken demo_env empty_db (Some ''Bearer header.payload.signature'') =
     Respond (respond 401 (error_body ''User not found. Token invalid.'')) \<and>
   authenticateToken demo_env demo_db (Some ''Bearer header.payload.signature'') =
     Next \<lparr>user_userId = 1, user_email = ''alice@example.com'', user_username = ''alice''\<rparr> \<and>
   authenticateToken
       (demo_env\<lparr>fault_findUserById := Some (Thrown ''SequelizeConnectionError'' None)\<rparr>)
       demo_db (Some ''Bearer header.payload.signature'') =
     Respond (respond 500 (error_body ''Server error during authentication''))"
proof -
  have t: "header_token (Some ''Bearer header.payload.signature'') = Some ''header.payload.signature''"
    by (simp add: header_token_def at_def)
  have f: "header_token (Some ''Bearer forged'') = Some ''forged''"
    by (simp add: header_token_def at_def)
  have 1: "authenticateToken demo_env demo_db None =
     Respond (respond 401 (error_body ''Access denied. No token provided.''))"
    using authenticateToken_outcomes [of None demo_env demo_db]
    by (simp add: header_token_def at_def falsy_def)
  have 2: "authenticateToken demo_env demo_db (Some ''Bearer forged'') =
     Respond (respond 401 (error_body ''Invalid token''))"
    using authenticateToken_outcomes
      [of "Some ''Bearer forged''" demo_env demo_db "''forged''" "Thrown ''JsonWebTokenError'' None"] f
    by (simp add: demo_env_def demo_verify_def)
  have 3: "authenticateToken (demo_env\<lparr>clock := 86401001\<rparr>) demo_db
       (Some ''Bearer header.payload.signature'') =
     Respond (respond 401 (error_body ''Token has expired. Please login again.''))"
    using authenticateToken_outcomes
      [of "Some ''Bearer header.payload.signature''" "demo_env\<lparr>clock := 86401001\<rparr>" demo_db
          "''header.payload.signature''" "Thrown ''TokenExpiredError'' None"] t
    by (simp add: demo_env_def demo_verify_def hours_24_def)
  have 4: "authenticateToken demo_env empty_db (Some ''Bearer header.payload.signature'') =
     Respond (respond 401 (error_body ''User not found. Token invalid.''))"
    using authenticateToken_outcomes
      [of "Some ''Bearer header.payload.signature''" demo_env empty_db
          "''header.payload.signature''" _ "login_payload alice"] t
    by (simp add: demo_env_def demo_verify_def hours_24_def empty_db_def)
  have 5: "authenticateToken demo_env demo_db (Some ''Bearer header.payload.signature'') =
     Next \<lparr>user_userId = 1, user_email = ''alice@example.com'', user_username = ''alice''\<rparr>"
    using authenticateToken_outcomes
      [of "Some ''Bearer header.payload.signature''" demo_env demo_db
          "''header.payload.signature''" _ "login_payload alice" alice] t
    by (simp add: demo_env_def demo_verify_def hours_24_def demo_db_def alice_def login_payload_def)
  have 6: "authenticateToken
       (demo_env\<lparr>fault_findUserById := Some (Thrown ''SequelizeConnectionError'' None)\<rparr>)
       demo_db (Some ''Bearer header.payload.signature'') =
     Respond (respond 500 (error_body ''Server error during authentication''))"
    using authenticateToken_outcomes
      [of "Some ''Bearer header.payload.signature''"
          "demo_env\<lparr>fault_findUserById := Some (Thrown ''SequelizeConnectionError'' None)\<rparr>"
          demo_db "''header.payload.signature''" "Thrown ''SequelizeConnectionError'' None"
          "login_payload alice"] t
    by (simp add: demo_env_def demo_verify_def hours_24_def)
  from 1 2 3 4 5 6 show ?thesis by simp
qed

text \<open>
  C9. The token is the second segment of the header split at single spaces, and the first
  segment is never inspected: a header \<^verbatim>\<open><scheme> <token>\<close> is handled as the header
  \<^verbatim>\<open>Bearer <token>\<close> is, whatever the scheme word, by verifying the token. A non-empty
  header without a space has no second segment and is answered 401 with the
  no-token-provided error, whatever the verifier would say of it.
\<close>

theorem gate_ignores_scheme:
  "(CHR '' '' \<notin> set scheme \<and> CHR '' '' \<notin> set tok \<and> tok \<noteq> [] \<longrightarrow>
      header_token (Some (scheme @ '' '' @ tok)) = Some tok \<and>
      authenticateToken e d (Some (scheme @ '' '' @ tok)) =
        (case authenticate_try e d tok of Inl err \<Rightarrow> authenticate_catch err | Inr g \<Rightarrow> g) \<and>
      authenticateToken e d (Some (scheme @ '' '' @ tok)) =
        authenticateToken e d (Some (''Bearer '' @ tok))) \<and>
   (h \<noteq> [] \<and> CHR '' '' \<notin> set h \<longrightarrow>
      header_token (Some h) = None \<and>
      authenticateToken e d (Some h) =
        Respond (respond 401 (error_body ''Access denied. No token provided.'')))"
proof (intro conjI impI)
  assume a: "CHR '' '' \<notin> set scheme \<and> CHR '' '' \<notin> set tok \<and> tok \<noteq> []"
  then show t: "header_token (Some (scheme @ '' '' @ tok)) = Some tok"
    using header_token_scheme [of scheme tok] by simp
  from a have b: "header_token (Some (''Bearer '' @ tok)) = Some tok"
    using header_token_scheme [of "''Bearer''" tok] by simp
  from a t show u: "authenticateToken e d (Some (scheme @ '' '' @ tok)) =
        (case authenticate_try e d tok of Inl err \<Rightarrow> authenticate_catch err | Inr g \<Rightarrow> g)"
    by (simp add: authenticateToken_def falsy_def str_def)
  from a b have "authenticateToken e d (Some (''Bearer '' @ tok)) =
        (case authenticate_try e d tok of Inl err \<Rightarrow> authenticate_catch err | Inr g \<Rightarrow> g)"
    by (simp add: authenticateToken_def falsy_def str_def)
  with u show "authenticateToken e d (Some (scheme @ '' '' @ tok)) =
        authenticateToken e d (Some (''Bearer '' @ tok))"
    by simp
next
  assume a: "h \<noteq> [] \<and> CHR '' '' \<notin> set h"
  then show t: "header_token (Some h) = None"
    by (simp add: header_token_bare)
  then show "authenticateToken e d (Some h) =
        Respond (respond 401 (error_body ''Access denied. No token provided.''))"
    by (simp add: authenticateToken_def falsy_def)
qed

theorem gate_ignores_scheme_witness:
  "header_token (Some ''Basic header.payload.signature'') = Some ''header.payload.signature'' \<and>
   authenticateToken demo_env demo_db (Some ''Basic header.payload.signature'') =
     authenticateToken demo_env demo_db (Some ''Bearer header.payload.signature'') \<and>
   authenticateToken demo_env demo_db (Some ''header.payload.signature'') =
     Respond (respond 401 (error_body ''Access denied. No token provided.''))"
proof -
  have a: "CHR '' '' \<notin> set ''Basic'' \<and> CHR '' '' \<notin> set ''header.payload.signature'' \<and>
      ''header.payload.signature'' \<noteq> []"
    by simp
  have b: "''header.payload.signature'' \<noteq> [] \<and> CHR '' '' \<notin> set ''header.payload.signature''"
    by simp
  have c: "''Basic'' @ '' '' @ ''header.payload.signature'' = ''Basic header.payload.signature''"
    by simp
  have d: "''Bearer '' @ ''header.payload.signature'' = ''Bearer header.payload.signature''"
    by simp
  from a b show ?thesis
    using gate_ignores_scheme
      [of "''Basic''" "''header.payload.signature''" demo_env demo_db "''header.payload.signature''"]
    unfolding c d by blast
qed

section \<open>Registration\<close>

text \<open>
  C4 and the code. The claim wants a uniqueness violation reported by the insert answered
  with 409. The insert reports one only in a race: the two lookups of the request found
  nothing in the table \<open>d\<close>, and by the time of the insert the table \<open>d'\<close> holds a row with
  the same email or username. The response is then decided by the \<^verbatim>\<open>code\<close> property of the
  exception that the ORM throws for the violated index: 409 if it is \<^verbatim>\<open>23505\<close>, the
  generic 500 otherwise. The ORM's exception has no \<^verbatim>\<open>code\<close> of its own, so the code
  answers 500 where the claim says 409; the second theorem evaluates the handler there.
\<close>

theorem insert_time_violation_response:
  assumes "passes_validation e un em pw" and "database_up e"
    and "\<forall>u \<in> set (rows d). username u \<noteq> un \<and> email u \<noteq> em"
    and "violates_unique d' un em"
  shows "registerUser_racing e d d' (register_request un em pw) =
           (if err_code (uniqueConstraintError e) = Some ''23505''
            then respond 409 (error_body ''User with this email or username already exists'')
            else respond 500 (error_body ''Server error during registration. Please try again.''),
            d')"
proof -
  from assms(3) have a: "find (\<lambda>u. email u = em) (rows d) = None"
    by (intro find_absent) simp
  from assms(3) have b: "find (\<lambda>u. username u = un) (rows d) = None"
    by (intro find_absent) simp
  from assms(1,2,4) have c: "createUser e d' un em (bcrypt_hash e pw SALT_ROUNDS) =
      (Inl (uniqueConstraintError e), d')"
    by (simp add: createUser_def passes_validation_def database_up_def)
  from assms(2) a b c have "register_try_racing e d d' un em pw = (Inl (uniqueConstraintError e), d')"
    by (simp add: register_try_racing_def findUserByEmail_def findUserByUsername_def
        database_up_def)
  then show ?thesis
    using assms(1) by (simp add: registerUser_racing_validated passes_validation_def register_catch_def)
qed

theorem insert_time_violation_response_witness:
  "findUserByEmail demo_env empty_db ''ann@example.com'' = Inr None \<and>
   findUserByUsername demo_env empty_db ''anna'' = Inr None \<and>
   violates_unique after_ann ''anna'' ''ann@example.com'' \<and>
   registerUser_racing demo_env empty_db after_ann
       (register_request ''anna'' ''ann@example.com'' ''secret-z'') =
     (respond 500 (error_body ''Server error during registration. Please try again.''),
      after_ann)"
proof -
  have 1: "findUserByEmail demo_env empty_db ''ann@example.com'' = Inr None"
    "findUserByUsername demo_env empty_db ''anna'' = Inr None"
    by (simp_all add: findUserByEmail_def findUserByUsername_def demo_env_def empty_db_def)
  have 2: "\<forall>u \<in> set (rows empty_db). username u \<noteq> ''anna'' \<and> email u \<noteq> ''ann@example.com''"
    by (simp add: empty_db_def)
  have 3: "err_code (uniqueConstraintError demo_env) \<noteq> Some ''23505''"
    by (simp add: demo_env_def)
  from 1 3 after_ann_violates show ?thesis
    using insert_time_violation_response
      [OF passes_validation_anna database_up_demo 2 after_ann_violates]
    by simp
qed

text \<open>
  C6. For a register request whose username and email are present, pass the model's
  validation and are not taken, with the database answering every query: a password of
  length 5 is rejected with status 400, and a password of length 6 passes the length check
  and the user is created with status 201.
\<close>

theorem register_password_boundary:
  assumes "un \<noteq> []" and "emailRegex_test em"
    and "3 \<le> length un" and "length un \<le> 100" and "isEmail e em" and "length em \<le> 150"
    and "length (bcrypt_hash e pw SALT_ROUNDS) \<le> 255"
    and "\<forall>u \<in> set (rows d). username u \<noteq> un \<and> email u \<noteq> em"
    and "fault_findUserByEmail e = None" and "fault_findUserByUsername e = None"
    and "fault_createUser e = None"
  shows "(length pw = 5 \<longrightarrow>
            registerUser e d (register_request un em pw) =
              (respond 400 (error_body ''Password must be at least 6 characters long''), d)) \<and>
         (length pw = 6 \<longrightarrow>
            registerUser e d (register_request un em pw) =
              (respond 201 (registered_body
                  (attributes (new_row e d un em (bcrypt_hash e pw SALT_ROUNDS)))),
               \<lparr>rows = rows d @ [new_row e d un em (bcrypt_hash e pw SALT_ROUNDS)],
                next_id = Suc (next_id d)\<rparr>))"
proof (intro conjI impI)
  assume 5: "length pw = 5"
  from assms(2) have "em \<noteq> []"
    by (auto simp: emailRegex_test_def emailRegex_def)
  moreover from 5 have "pw \<noteq> []" by auto
  ultimately show "registerUser e d (register_request un em pw) =
      (respond 400 (error_body ''Password must be at least 6 characters long''), d)"
    using assms(1,2) 5 by (simp add: registerUser_def register_request_def falsy_def str_def)
next
  assume 6: "length pw = 6"
  then have "6 \<le> length pw" by simp
  then show "registerUser e d (register_request un em pw) =
      (respond 201 (registered_body
          (attributes (new_row e d un em (bcrypt_hash e pw SALT_ROUNDS)))),
       \<lparr>rows = rows d @ [new_row e d un em (bcrypt_hash e pw SALT_ROUNDS)],
        next_id = Suc (next_id d)\<rparr>)"
    using assms by (simp add: registerUser_validated register_try_success)
qed

theorem register_password_boundary_witness:
  "registerUser demo_env empty_db (register_request ''bob'' ''bob@example.com'' ''12345'') =
     (respond 400 (error_body ''Password must be at least 6 characters long''), empty_db) \<and>
   status (fst (registerUser demo_env empty_db
     (register_request ''bob'' ''bob@example.com'' ''123456''))) = 201 \<and>
   map username (rows (snd (registerUser demo_env empty_db
     (register_request ''bob'' ''bob@example.com'' ''123456'')))) = [''bob'']"
proof -
  have 1: "registerUser demo_env empty_db (register_request ''bob'' ''bob@example.com'' ''12345'') =
     (respond 400 (error_body ''Password must be at least 6 characters long''), empty_db)"
    using register_password_boundary
      [of "''bob''" "''bob@example.com''" demo_env "''12345''" empty_db] emailRegex_test_bob
    by (simp add: demo_env_def empty_db_def)
  have 2: "registerUser demo_env empty_db (register_request ''bob'' ''bob@example.com'' ''123456'') =
     (respond 201 (registered_body (attributes
         (new_row demo_env empty_db ''bob'' ''bob@example.com''
            (bcrypt_hash demo_env ''123456'' SALT_ROUNDS)))),
      \<lparr>rows = rows empty_db @ [new_row demo_env empty_db ''bob'' ''bob@example.com''
            (bcrypt_hash demo_env ''123456'' SALT_ROUNDS)],
       next_id = Suc (next_id empty_db)\<rparr>)"
    using register_password_boundary
      [of "''bob''" "''bob@example.com''" demo_env "''123456''" empty_db] emailRegex_test_bob
    by (simp add: demo_env_def empty_db_def)
  from 1 show ?thesis
    unfolding 2 by (simp add: respond_def new_row_def empty_db_def)
qed

text \<open>
  C10. The lookups by email and by username compare with exact string equality, and so
  do the unique indexes. Two register requests whose emails (or usernames) differ only in
  the case of letters are therefore different keys: the pre-check of the second request
  finds no row, both requests are answered 201, and the table then holds both rows, whose
  emails (or usernames) differ only in case.
\<close>

theorem uniqueness_is_case_sensitive:
  assumes "passes_validation e1 un1 em1 pw1" and "database_up e1"
    and "passes_validation e2 un2 em2 pw2" and "database_up e2"
    and "\<forall>u \<in> set (rows d). username u \<noteq> un1 \<and> email u \<noteq> em1 \<and>
                              username u \<noteq> un2 \<and> email u \<noteq> em2"
    and "un1 \<noteq> un2" and "em1 \<noteq> em2"
    and "same_up_to_case em1 em2 \<or> same_up_to_case un1 un2"
  shows "(\<forall>u. findUserByEmail e0 d0 x = Inr (Some u) \<longrightarrow> u \<in> set (rows d0) \<and> email u = x) \<and>
         (\<forall>u. findUserByUsername e0 d0 y = Inr (Some u) \<longrightarrow>
              u \<in> set (rows d0) \<and> username u = y) \<and>
         (\<exists>r1 d1 r2 d2 u1 u2.
           registerUser e1 d (register_request un1 em1 pw1) = (r1, d1) \<and> status r1 = 201 \<and>
           findUserByEmail e2 d1 em2 = Inr None \<and> findUserByUsername e2 d1 un2 = Inr None \<and>
           registerUser e2 d1 (register_request un2 em2 pw2) = (r2, d2) \<and> status r2 = 201 \<and>
           rows d2 = rows d @ [u1, u2] \<and>
           username u1 = un1 \<and> email u1 = em1 \<and> username u2 = un2 \<and> email u2 = em2)"
proof -
  let ?u1 = "new_row e1 d un1 em1 (bcrypt_hash e1 pw1 SALT_ROUNDS)"
  let ?d1 = "\<lparr>rows = rows d @ [?u1], next_id = Suc (next_id d)\<rparr>"
  let ?u2 = "new_row e2 ?d1 un2 em2 (bcrypt_hash e2 pw2 SALT_ROUNDS)"
  let ?d2 = "\<lparr>rows = rows ?d1 @ [?u2], next_id = Suc (next_id ?d1)\<rparr>"
  have free1: "\<forall>u \<in> set (rows d). username u \<noteq> un1 \<and> email u \<noteq> em1"
    using assms(5) by simp
  have free2: "\<forall>u \<in> set (rows ?d1). username u \<noteq> un2 \<and> email u \<noteq> em2"
    using assms(5,6,7) by (auto simp: new_row_def)
  have 1: "registerUser e1 d (register_request un1 em1 pw1) =
      (respond 201 (registered_body (attributes ?u1)), ?d1)"
    using assms(1,2) free1 by (rule registerUser_accepts)
  have 2: "registerUser e2 ?d1 (register_request un2 em2 pw2) =
      (respond 201 (registered_body (attributes ?u2)), ?d2)"
    using assms(3,4) free2 by (rule registerUser_accepts)
  have 3: "findUserByEmail e2 ?d1 em2 = Inr None"
    using assms(4) free2 find_absent [of "rows ?d1" "\<lambda>u. email u = em2"]
    by (simp add: findUserByEmail_def database_up_def)
  have 4: "findUserByUsername e2 ?d1 un2 = Inr None"
    using assms(4) free2 find_absent [of "rows ?d1" "\<lambda>u. username u = un2"]
    by (simp add: findUserByUsername_def database_up_def)
  have 5: "rows ?d2 = rows d @ [?u1, ?u2]" by simp
  have 6: "username ?u1 = un1 \<and> email ?u1 = em1 \<and> username ?u2 = un2 \<and> email ?u2 = em2"
    by (simp add: new_row_def)
  have 7: "status (respond 201 (registered_body (attributes ?u1))) = 201"
    "status (respond 201 (registered_body (attributes ?u2))) = 201"
    by (simp_all add: respond_def)
  from 1 2 3 4 5 6 7 have "\<exists>r1 d1 r2 d2 u1 u2.
      registerUser e1 d (register_request un1 em1 pw1) = (r1, d1) \<and> status r1 = 201 \<and>
      findUserByEmail e2 d1 em2 = Inr None \<and> findUserByUsername e2 d1 un2 = Inr None \<and>
      registerUser e2 d1 (register_request un2 em2 pw2) = (r2, d2) \<and> status r2 = 201 \<and>
      rows d2 = rows d @ [u1, u2] \<and>
      username u1 = un1 \<and> email u1 = em1 \<and> username u2 = un2 \<and> email u2 = em2"
    by blast
  then show ?thesis
    using findUserByEmail_exact [of e0 d0 x] findUserByUsername_exact [of e0 d0 y] by blast
qed

theorem uniqueness_is_case_sensitive_witness:
  "same_up_to_case ''Alice@Example.com'' ''alice@example.com'' \<and>
   (\<exists>r1 d1 r2 d2 u1 u2.
      registerUser demo_env empty_db
        (register_request ''Alice'' ''Alice@Example.com'' ''wonderland'') = (r1, d1) \<and>
      status r1 = 201 \<and>
      findUserByEmail demo_env d1 ''alice@example.com'' = Inr None \<and>
      findUserByUsername demo_env d1 ''alice2'' = Inr None \<and>
      registerUser demo_env d1
        (register_request ''alice2'' ''alice@example.com'' ''wonderland'') = (r2, d2) \<and>
      status r2 = 201 \<and>
      rows d2 = rows empty_db @ [u1, u2] \<and>
      username u1 = ''Alice'' \<and> email u1 = ''Alice@Example.com'' \<and>
      username u2 = ''alice2'' \<and> email u2 = ''alice@example.com'')"
proof -
  have "\<forall>u \<in> set (rows empty_db).
      username u \<noteq> ''Alice'' \<and> email u \<noteq> ''Alice@Example.com'' \<and>
      username u \<noteq> ''alice2'' \<and> email u \<noteq> ''alice@example.com''"
    by (simp add: empty_db_def)
  moreover have "''Alice'' \<noteq> ''alice2''" and "''Alice@Example.com'' \<noteq> ''alice@example.com''"
    by simp_all
  ultimately show ?thesis
    using uniqueness_is_case_sensitive
      [OF passes_validation_demo(1) database_up_demo passes_validation_demo(2) database_up_demo,
       of empty_db] same_up_to_case_demo
    by blast
qed

section \<open>Login\<close>

text \<open>
  C3. A login whose email matches no row and a login whose email matches a row but whose
  password fails the comparison with the stored digest are both answered with status 401
  and with the same body.
\<close>

theorem login_failures_identical:
  assumes "em1 \<noteq> []" and "pw1 \<noteq> []" and "em2 \<noteq> []" and "pw2 \<noteq> []"
    and "fault_findUserByEmail e1 = None" and "fault_findUserByEmail e2 = None"
    and "\<forall>u \<in> set (rows d1). email u \<noteq> em1"
    and "find (\<lambda>u. email u = em2) (rows d2) = Some user"
    and "\<not> bcrypt_compare e2 pw2 (password user)"
  shows "status (loginUser e1 d1 (login_request em1 pw1)) = 401 \<and>
         status (loginUser e2 d2 (login_request em2 pw2)) = 401 \<and>
         body (loginUser e1 d1 (login_request em1 pw1)) =
           body (loginUser e2 d2 (login_request em2 pw2)) \<and>
         body (loginUser e1 d1 (login_request em1 pw1)) = error_body ''Invalid email or password''"
proof -
  from assms(7) have "find (\<lambda>u. email u = em1) (rows d1) = None"
    by (intro find_absent) simp
  with assms have 1: "loginUser e1 d1 (login_request em1 pw1) =
      respond 401 (error_body ''Invalid email or password'')"
    by (simp add: loginUser_def login_request_def login_try_def findUserByEmail_def
        falsy_def str_def)
  from assms have 2: "loginUser e2 d2 (login_request em2 pw2) =
      respond 401 (error_body ''Invalid email or password'')"
    by (simp add: loginUser_def login_request_def login_try_def findUserByEmail_def
        falsy_def str_def)
  from 1 2 show ?thesis by (simp add: respond_def)
qed

theorem login_failures_identical_witness:
  "status (loginUser demo_env demo_db (login_request ''nobody@example.com'' ''wonderland'')) = 401 \<and>
   status (loginUser demo_env demo_db (login_request ''alice@example.com'' ''looking-glass'')) = 401 \<and>
   body (loginUser demo_env demo_db (login_request ''nobody@example.com'' ''wonderland'')) =
     body (loginUser demo_env demo_db (login_request ''alice@example.com'' ''looking-glass''))"
  using login_failures_identical
    [of "''nobody@example.com''" "''wonderland''" "''alice@example.com''" "''looking-glass''"
        demo_env demo_env demo_db demo_db alice]
  by (simp add: demo_env_def demo_db_def alice_def)

section \<open>The lifetime of a token\<close>

text \<open>
  C8. A token issued by a successful login, at instant \<open>t\<close>, is accepted by the
  middleware at every instant up to \<open>t + 24h\<close>, as long as the account is still in the
  table, and is rejected with status 401 and the expired-token message at every instant
  after \<open>t + 24h\<close>. The token service is the one of section 4.2 of the specification.
\<close>

theorem token_lifetime:
  assumes "token_service e"
    and "loginUser e d b = respond 200 (logged_in_body token user)"
    and "jwt_verify e' = jwt_verify e" and "JWT_SECRET e' = JWT_SECRET e"
  shows "(clock e' \<le> clock e + hours_24 \<and> fault_findUserById e' = None \<and>
          find (\<lambda>u. row_id u = row_id user) (rows d') = Some user' \<longrightarrow>
            authenticateToken e' d' (Some (''Bearer '' @ token)) =
              Next \<lparr>user_userId = row_id user', user_email = email user',
                    user_username = username user'\<rparr>) \<and>
         (clock e + hours_24 < clock e' \<longrightarrow>
            authenticateToken e' d' (Some (''Bearer '' @ token)) =
              Respond (respond 401 (error_body ''Token has expired. Please login again.'')))"
proof -
  have s: "jwt_sign e (login_payload user) (JWT_SECRET e) ''24h'' (clock e) = Inr token"
    using assms(2) by (rule login_issues_token)
  with assms(1) have w: "token \<noteq> []" "CHR '' '' \<notin> set token"
    and v: "\<And>now. now \<le> clock e + hours_24 \<Longrightarrow>
              jwt_verify e token (JWT_SECRET e) now = Inr (login_payload user)"
    and x: "\<And>now. clock e + hours_24 < now \<Longrightarrow>
              \<exists>err. jwt_verify e token (JWT_SECRET e) now = Inl err \<and>
                    err_name err = ''TokenExpiredError''"
    unfolding token_service_def by blast+
  from w have h: "header_token (Some (''Bearer '' @ token)) = Some token"
    using header_token_scheme [of "''Bearer''" token] by simp
  show ?thesis
  proof (intro conjI impI)
    assume a: "clock e' \<le> clock e + hours_24 \<and> fault_findUserById e' = None \<and>
          find (\<lambda>u. row_id u = row_id user) (rows d') = Some user'"
    then have "jwt_verify e' token (JWT_SECRET e') (clock e') = Inr (login_payload user)"
      using v assms(3,4) by simp
    with a h w show "authenticateToken e' d' (Some (''Bearer '' @ token)) =
              Next \<lparr>user_userId = row_id user', user_email = email user',
                    user_username = username user'\<rparr>"
      by (simp add: authenticateToken_def authenticate_try_def findUserById_def falsy_def
          str_def login_payload_def attributes_def)
  next
    assume "clock e + hours_24 < clock e'"
    then obtain err where "jwt_verify e' token (JWT_SECRET e') (clock e') = Inl err"
      and "err_name err = ''TokenExpiredError''"
      using x assms(3,4) by fastforce
    with h w show "authenticateToken e' d' (Some (''Bearer '' @ token)) =
              Respond (respond 401 (error_body ''Token has expired. Please login again.''))"
      by (simp add: authenticateToken_def authenticate_try_def authenticate_catch_def
          falsy_def str_def)
  qed
qed

theorem token_lifetime_witness:
  "loginUser demo_env demo_db (login_request ''alice@example.com'' ''wonderland'') =
     respond 200 (logged_in_body ''header.payload.signature'' alice) \<and>
   authenticateToken (demo_env\<lparr>clock := 1000 + hours_24\<rparr>) demo_db
       (Some ''Bearer header.payload.signature'') =
     Next \<lparr>user_userId = 1, user_email = ''alice@example.com'', user_username = ''alice''\<rparr> \<and>
   authenticateToken (demo_env\<lparr>clock := 1001 + hours_24\<rparr>) demo_db
       (Some ''Bearer header.payload.signature'') =
     Respond (respond 401 (error_body ''Token has expired. Please login again.''))"
proof -
  have l: "loginUser demo_env demo_db (login_request ''alice@example.com'' ''wonderland'') =
     respond 200 (logged_in_body ''header.payload.signature'' alice)"
    by (simp add: loginUser_def login_request_def login_try_def findUserByEmail_def falsy_def
        str_def demo_env_def demo_db_def demo_sign_def alice_def)
  have 1: "authenticateToken (demo_env\<lparr>clock := 1000 + hours_24\<rparr>) demo_db
       (Some ''Bearer header.payload.signature'') =
     Next \<lparr>user_userId = 1, user_email = ''alice@example.com'', user_username = ''alice''\<rparr>"
    using token_lifetime [OF token_service_demo l,
        of "demo_env\<lparr>clock := 1000 + hours_24\<rparr>" demo_db alice]
    by (simp add: demo_env_def demo_db_def alice_def)
  have 2: "authenticateToken (demo_env\<lparr>clock := 1001 + hours_24\<rparr>) demo_db
       (Some ''Bearer header.payload.signature'') =
     Respond (respond 401 (error_body ''Token has expired. Please login again.''))"
    using token_lifetime [OF token_service_demo l,
        of "demo_env\<lparr>clock := 1001 + hours_24\<rparr>" demo_db]
    by (simp add: demo_env_def)
  from l 1 2 show ?thesis by simp
qed

section \<open>The listing\<close>

text \<open>
  C5 as stated does not hold of the controller: on a table of one user the listing
  succeeds with status 200 and its body is an array, not an object with the fields
  \<open>message\<close>, \<open>count\<close> and \<open>users\<close>.
\<close>

theorem listing_body_counterexample:
  "status (getAllUsers demo_env demo_db) = 200 \<and>
   body (getAllUsers demo_env demo_db) =
     JArr [JObj [(''id'', JNum 1), (''username'', JStr ''alice''),
                 (''email'', JStr ''alice@example.com''), (''createdAt'', JDate 500)]] \<and>
   \<not> message_count_users (body (getAllUsers demo_env demo_db))"
  by (simp add: getAllUsers_def UserModel_getAllUsers_def order_createdAt_DESC_def
      attributes_def view_json_def respond_def message_count_users_def
      demo_env_def demo_db_def alice_def)

text \<open>
  C5, as the controller has it. A listing that succeeds has status 200 and its body is
  the array of the users itself, one object per row of the table, latest first; it is not
  an object with the fields \<open>message\<close>, \<open>count\<close> and \<open>users\<close>.
\<close>

theorem listing_body_is_array:
  "status (getAllUsers e d) = 200 \<longrightarrow>
     body (getAllUsers e d) = JArr (map view_json (map attributes (order_createdAt_DESC (rows d)))) \<and>
     (\<exists>users. body (getAllUsers e d) = JArr users \<and> length users = length (rows d)) \<and>
     \<not> message_count_users (body (getAllUsers e d))"
  by (auto simp: getAllUsers_def UserModel_getAllUsers_def order_createdAt_DESC_def
      respond_def message_count_users_def split: option.splits)

theorem listing_body_is_array_witness:
  "status (getAllUsers demo_env demo_db) = 200 \<and>
   (\<exists>users. body (getAllUsers demo_env demo_db) = JArr users \<and> length users = 1)"
proof -
  have "status (getAllUsers demo_env demo_db) = 200"
    by (simp add: getAllUsers_def UserModel_getAllUsers_def respond_def demo_env_def)
  moreover have "length (rows demo_db) = 1"
    by (simp add: demo_db_def)
  ultimately show ?thesis
    using listing_body_is_array [of demo_env demo_db] by auto
qed

text \<open>
  C7. The listing is the rows of the table in the order of \<open>createdAt\<close>, latest first.
  After three registrations A, B, C in this order, at increasing instants later than
  every row already stored, the listing starts with C, B, A.
\<close>

theorem listing_newest_first:
  "(UserModel_getAllUsers e d = Inr users \<longrightarrow>
      sorted_wrt (\<lambda>a b. view_createdAt b \<le> view_createdAt a) users \<and>
      mset users = mset (map attributes (rows d))) \<and>
   (registerUser eA d (register_request unA emA pwA) = (rA, d1) \<and> status rA = 201 \<and>
    registerUser eB d1 (register_request unB emB pwB) = (rB, d2) \<and> status rB = 201 \<and>
    registerUser eC d2 (register_request unC emC pwC) = (rC, d3) \<and> status rC = 201 \<and>
    (\<forall>u \<in> set (rows d). createdAt u < clock eA) \<and> clock eA < clock eB \<and> clock eB < clock eC \<and>
    fault_getAllUsers e = None \<longrightarrow>
      (\<exists>a b c.
         UserModel_getAllUsers e d3 =
           Inr (c # b # a # map attributes (order_createdAt_DESC (rows d))) \<and>
         view_username a = unA \<and> view_email a = emA \<and>
         view_username b = unB \<and> view_email b = emB \<and>
         view_username c = unC \<and> view_email c = emC))"
proof (intro conjI impI)
  assume l: "UserModel_getAllUsers e d = Inr users"
  then have u: "users = map attributes (order_createdAt_DESC (rows d))"
    by (auto simp: UserModel_getAllUsers_def split: option.splits)
  have "sorted_wrt (\<lambda>a b. createdAt b \<le> createdAt a) (order_createdAt_DESC (rows d))"
    by (rule order_descending)
  then show "sorted_wrt (\<lambda>a b. view_createdAt b \<le> view_createdAt a) users"
    unfolding u by (simp add: sorted_wrt_map attributes_def)
  show "mset users = mset (map attributes (rows d))"
    unfolding u order_createdAt_DESC_def by simp
next
  assume h: "registerUser eA d (register_request unA emA pwA) = (rA, d1) \<and> status rA = 201 \<and>
    registerUser eB d1 (register_request unB emB pwB) = (rB, d2) \<and> status rB = 201 \<and>
    registerUser eC d2 (register_request unC emC pwC) = (rC, d3) \<and> status rC = 201 \<and>
    (\<forall>u \<in> set (rows d). createdAt u < clock eA) \<and> clock eA < clock eB \<and> clock eB < clock eC \<and>
    fault_getAllUsers e = None"
  let ?a = "new_row eA d unA emA (bcrypt_hash eA pwA SALT_ROUNDS)"
  let ?b = "new_row eB d1 unB emB (bcrypt_hash eB pwB SALT_ROUNDS)"
  let ?c = "new_row eC d2 unC emC (bcrypt_hash eC pwC SALT_ROUNDS)"
  from h have r1: "rows d1 = rows d @ [?a]"
    using registerUser_created [of eA d unA emA pwA rA d1] by simp
  from h have r2: "rows d2 = rows d1 @ [?b]"
    using registerUser_created [of eB d1 unB emB pwB rB d2] by simp
  from h have r3: "rows d3 = rows d2 @ [?c]"
    using registerUser_created [of eC d2 unC emC pwC rC d3] by simp
  have t: "createdAt ?a = clock eA" "createdAt ?b = clock eB" "createdAt ?c = clock eC"
    by (simp_all add: new_row_def)
  have o1: "order_createdAt_DESC (rows d1) = ?a # order_createdAt_DESC (rows d)"
    unfolding r1 using h t by (intro order_newest_last) simp
  have o2: "order_createdAt_DESC (rows d2) = ?b # order_createdAt_DESC (rows d1)"
    unfolding r2 using h t r1 by (intro order_newest_last) auto
  have o3: "order_createdAt_DESC (rows d3) = ?c # order_createdAt_DESC (rows d2)"
    unfolding r3 using h t r1 r2 by (intro order_newest_last) auto
  from h have "UserModel_getAllUsers e d3 =
      Inr (attributes ?c # attributes ?b # attributes ?a #
           map attributes (order_createdAt_DESC (rows d)))"
    by (simp add: UserModel_getAllUsers_def o1 o2 o3)
  moreover have "view_username (attributes ?a) = unA \<and> view_email (attributes ?a) = emA \<and>
      view_username (attributes ?b) = unB \<and> view_email (attributes ?b) = emB \<and>
      view_username (attributes ?c) = unC \<and> view_email (attributes ?c) = emC"
    by (simp add: attributes_def new_row_def)
  ultimately show "\<exists>a b c.
         UserModel_getAllUsers e d3 =
           Inr (c # b # a # map attributes (order_createdAt_DESC (rows d))) \<and>
         view_username a = unA \<and> view_email a = emA \<and>
         view_username b = unB \<and> view_email b = emB \<and>
         view_username c = unC \<and> view_email c = emC"
    by blast
qed

theorem listing_newest_first_witness:
  "\<exists>a b c. UserModel_getAllUsers demo_env after_cat = Inr [c, b, a] \<and>
     view_username a = ''ann'' \<and> view_username b = ''ben'' \<and> view_username c = ''cat''"
proof -
  have A: "registerUser (demo_env\<lparr>clock := 1000\<rparr>) empty_db
             (register_request ''ann'' ''ann@example.com'' ''secret-a'') =
           (fst (registerUser (demo_env\<lparr>clock := 1000\<rparr>) empty_db ann_request), after_ann)"
    by (simp add: after_ann_def ann_request_def)
  have B: "registerUser (demo_env\<lparr>clock := 2000\<rparr>) after_ann
             (register_request ''ben'' ''ben@example.com'' ''secret-b'') =
           (fst (registerUser (demo_env\<lparr>clock := 2000\<rparr>) after_ann ben_request), after_ben)"
    by (simp add: after_ben_def ben_request_def)
  have C: "registerUser (demo_env\<lparr>clock := 3000\<rparr>) after_ben
             (register_request ''cat'' ''cat@example.com'' ''secret-c'') =
           (fst (registerUser (demo_env\<lparr>clock := 3000\<rparr>) after_ben cat_request), after_cat)"
    by (simp add: after_cat_def cat_request_def)
  have sA: "status (fst (registerUser (demo_env\<lparr>clock := 1000\<rparr>) empty_db ann_request)) = 201"
    by (simp add: after_ann_rows respond_def)
  have sB: "status (fst (registerUser (demo_env\<lparr>clock := 2000\<rparr>) after_ann ben_request)) = 201"
    by (simp add: after_ben_rows respond_def)
  have t: "(\<forall>u \<in> set (rows empty_db). createdAt u < clock (demo_env\<lparr>clock := 1000\<rparr>)) \<and>
      clock (demo_env\<lparr>clock := 1000\<rparr>) < clock (demo_env\<lparr>clock := 2000\<rparr>) \<and>
      clock (demo_env\<lparr>clock := 2000\<rparr>) < clock (demo_env\<lparr>clock := 3000\<rparr>) \<and>
      fault_getAllUsers demo_env = None"
    by (simp add: empty_db_def demo_env_def)
  have e: "map attributes (order_createdAt_DESC (rows empty_db)) = []"
    by (simp add: empty_db_def order_createdAt_DESC_def)
  from A B C sA sB after_cat_status t show ?thesis
    using listing_newest_first
      [of demo_env empty_db _ "demo_env\<lparr>clock := 1000\<rparr>" "''ann''" "''ann@example.com''"
          "''secret-a''" _ after_ann "demo_env\<lparr>clock := 2000\<rparr>" "''ben''" "''ben@example.com''"
          "''secret-b''" _ after_ben "demo_env\<lparr>clock := 3000\<rparr>" "''cat''" "''cat@example.com''"
          "''secret-c''" _ after_cat]
    unfolding e by blast
qed

section \<open>What the responses show of the passwords\<close>

text \<open>
  C2. No response of register, login or the listing (the middleware's rejections
  included) has a key \<open>password\<close> at any depth, whatever the outcome. No stored digest
  reaches a body: blanking every digest of the table changes no response of register,
  the listing or the middleware, the digest computed for a new user changes the register
  response at most by whether it fits its column, and two tables that agree on the public
  columns and on the outcome of the password comparison get the same login response.
\<close>

theorem responses_hide_passwords:
  "\<not> has_key ''password'' (body (fst (registerUser e d rb))) \<and>
   \<not> has_key ''password'' (body (loginUser e d lb)) \<and>
   \<not> has_key ''password'' (body (getAllUsers e d)) \<and>
   (\<forall>r. authenticateToken e d h = Respond r \<longrightarrow> \<not> has_key ''password'' (body r)) \<and>
   fst (registerUser e (redact d) rb) = fst (registerUser e d rb) \<and>
   ((255 < length (bcrypt_hash e (str (reg_password rb)) SALT_ROUNDS) \<longleftrightarrow>
     255 < length (digest (str (reg_password rb)) SALT_ROUNDS)) \<longrightarrow>
      fst (registerUser (e\<lparr>bcrypt_hash := digest\<rparr>) d rb) = fst (registerUser e d rb)) \<and>
   getAllUsers e (redact d) = getAllUsers e d \<and>
   authenticateToken e (redact d) h = authenticateToken e d h \<and>
   (list_all2 (\<lambda>u u'. attributes u = attributes u' \<and>
        bcrypt_compare e (str (login_password lb)) (password u) =
        bcrypt_compare e (str (login_password lb)) (password u')) (rows d) (rows d') \<longrightarrow>
      loginUser e d' lb = loginUser e d lb)"
proof -
  have "fst (registerUser (e\<lparr>bcrypt_hash := digest\<rparr>) d rb) = fst (registerUser e d rb)"
    if "255 < length (bcrypt_hash e (str (reg_password rb)) SALT_ROUNDS) \<longleftrightarrow>
        255 < length (digest (str (reg_password rb)) SALT_ROUNDS)"
    using that register_digest [of e rb "e\<lparr>bcrypt_hash := digest\<rparr>" digest d] by simp
  then show ?thesis
    using register_body_no_password [of e d rb] login_body_no_password [of e d lb]
      listing_body_no_password [of e d] gate_body_no_password [of e d h]
      register_redact [of e d rb] listing_redact [of e d] gate_redact [of e d h]
      login_same_outcome [of e lb d d']
    by blast
qed

theorem responses_hide_passwords_witness:
  "\<not> has_key ''password''
       (body (fst (registerUser demo_env demo_db
          (register_request ''bob'' ''bob@example.com'' ''hunter22'')))) \<and>
   \<not> has_key ''password''
       (body (loginUser demo_env demo_db (login_request ''alice@example.com'' ''guess''))) \<and>
   \<not> has_key ''password'' (body (getAllUsers demo_env demo_db)) \<and>
   fst (registerUser (demo_env\<lparr>bcrypt_hash := (\<lambda>pw rounds. ''$2a$10$salted'')\<rparr>) demo_db
          (register_request ''bob'' ''bob@example.com'' ''hunter22'')) =
     fst (registerUser demo_env demo_db
          (register_request ''bob'' ''bob@example.com'' ''hunter22'')) \<and>
   loginUser demo_env (redact demo_db) (login_request ''alice@example.com'' ''guess'') =
     loginUser demo_env demo_db (login_request ''alice@example.com'' ''guess'')"
proof -
  have a: "255 < length (bcrypt_hash demo_env
               (str (reg_password (register_request ''bob'' ''bob@example.com'' ''hunter22'')))
               SALT_ROUNDS) \<longleftrightarrow>
           255 < length ((\<lambda>pw rounds. ''$2a$10$salted'')
               (str (reg_password (register_request ''bob'' ''bob@example.com'' ''hunter22'')))
               SALT_ROUNDS)"
    by (simp add: demo_env_def register_request_def str_def)
  have b: "list_all2 (\<lambda>u u'. attributes u = attributes u' \<and>
        bcrypt_compare demo_env
          (str (login_password (login_request ''alice@example.com'' ''guess''))) (password u) =
        bcrypt_compare demo_env
          (str (login_password (login_request ''alice@example.com'' ''guess''))) (password u'))
        (rows demo_db) (rows (redact demo_db))"
    by (simp add: demo_env_def demo_db_def redact_def alice_def attributes_def
        login_request_def str_def)
  from a b show ?thesis
    using responses_hide_passwords
      [of demo_env demo_db "register_request ''bob'' ''bob@example.com'' ''hunter22''"
          "login_request ''alice@example.com'' ''guess''" None
          "\<lambda>pw rounds. ''$2a$10$salted''" "redact demo_db"]
    by blast
qed

end
